theory Spec2Isabelle
  imports Main
begin

section \<open>Python values and string formatting\<close>

text \<open>
  A cell value or a column label as pandas hands it over. \<open>PNone\<close>, \<open>PNaN\<close> and
  \<open>PNaT\<close> are the three null markers (\<open>pd.isna\<close> is true of exactly these).
  \<open>PFloat s\<close> is a float other than NaN and \<open>POther s\<close> any other object (a bool,
  a Timestamp); both are given by the text \<open>str()\<close> returns for them, since the
  program only ever stringifies them.
\<close>

datatype pyval = PNone | PNaN | PNaT | PInt int | PFloat string | PStr string | POther string

text \<open>An exception, by its class and message.\<close>

datatype exn =
    FileNotFoundError string
  | FileExistsError string
  | ValueError string
  | OSError string

text \<open>
  The outcome of a call: the returned value, or the exception that escapes. A method
  that ends without a \<open>return\<close> of a value returns \<open>PNone\<close>.
\<close>

datatype 'a outcome = Return 'a | Raise exn

text \<open>The decimal digit \<open>d < 10\<close> as a character.\<close>

definition digit_char :: "nat \<Rightarrow> char" where
  "digit_char d = ''0123456789'' ! d"

function str_nat :: "nat \<Rightarrow> string" where
  "str_nat n = (if n < 10 then [digit_char n] else str_nat (n div 10) @ [digit_char (n mod 10)])"
  by pat_completeness auto
termination
  by (relation "measure id") auto

declare str_nat.simps [simp del]

text \<open>\<open>str(i)\<close> of a Python int.\<close>

definition str_int :: "int \<Rightarrow> string" where
  "str_int i = (if i < 0 then CHR ''-'' # str_nat (nat (- i)) else str_nat (nat i))"

definition zfill :: "nat \<Rightarrow> string \<Rightarrow> string" where
  "zfill w s = replicate (w - length s) CHR ''0'' @ s"

text \<open>
  The format specification \<open>03d\<close>: decimal, padded with zeros after the sign to a
  total width of at least 3.
\<close>

definition format_03d :: "int \<Rightarrow> string" where
  "format_03d i = (if i < 0 then CHR ''-'' # zfill 2 (str_nat (nat (- i))) else zfill 3 (str_nat (nat i)))"

text \<open>\<open>pd.isna(value)\<close> on a scalar.\<close>

fun isna :: "pyval \<Rightarrow> bool" where
  "isna PNone = True"
| "isna PNaN = True"
| "isna PNaT = True"
| "isna _ = False"

text \<open>\<open>isinstance(value, (int, float))\<close>.\<close>

fun is_number :: "pyval \<Rightarrow> bool" where
  "is_number (PInt _) = True"
| "is_number (PFloat _) = True"
| "is_number PNaN = True"
| "is_number _ = False"

text \<open>\<open>str(value)\<close>.\<close>

fun py_str :: "pyval \<Rightarrow> string" where
  "py_str PNone = ''None''"
| "py_str PNaN = ''nan''"
| "py_str PNaT = ''NaT''"
| "py_str (PInt i) = str_int i"
| "py_str (PFloat s) = s"
| "py_str (PStr s) = s"
| "py_str (POther s) = s"

text \<open>
  \<open>os.path.join(a, b)\<close> for two components, as \<open>posixpath\<close> computes it: an
  absolute second component replaces the first.
\<close>

definition os_path_join :: "string \<Rightarrow> string \<Rightarrow> string" where
  "os_path_join a b =
     (if (case b of [] \<Rightarrow> False | c # _ \<Rightarrow> c = CHR ''/'') then b
      else if a = [] \<or> last a = CHR ''/'' then a @ b
      else a @ ''/'' @ b)"

section \<open>The environment: the file system, pandas and reportlab\<close>

text \<open>
  A DataFrame as \<open>pd.read_excel\<close> returns it: the column labels in sheet order and
  the rows in sheet order, each row a list of cells; its index is the default
  \<open>RangeIndex\<close>, so row \<open>i\<close> has label \<open>i\<close>.
\<close>

record dataframe =
  columns :: "pyval list"
  data :: "pyval list list"

text \<open>A workbook: its sheets in file order, each with its name.\<close>

type_synonym workbook = "(string \<times> dataframe) list"

text \<open>
  What \<open>doc.build(elements)\<close> is given: the title paragraph and the rows of the
  two-column table. Page size, margins and table style are the same constants for
  every document and are left out.
\<close>

record document =
  title :: string
  table_data :: "(string \<times> string) list"

datatype file_content = Workbook workbook | PdfDoc document | Blob string

text \<open>One constructor per \<open>print\<close> call of the program.\<close>

datatype event =
    ReadOk nat nat
      \<comment> \<open>\<open>Successfully read {len(df)} rows and {len(df.columns)} columns from Excel file\<close>\<close>
  | ReadError exn
      \<comment> \<open>\<open>Error reading Excel file: {e}\<close>\<close>
  | Processing nat
      \<comment> \<open>\<open>Processing {len(df)} rows...\<close>\<close>
  | Created string
      \<comment> \<open>\<open>Created PDF: {pdf_filename}\<close>\<close>
  | CreateError string exn
      \<comment> \<open>\<open>Error creating PDF {pdf_filename}: {e}\<close>\<close>
  | Complete nat string
      \<comment> \<open>\<open>Conversion complete! {len(df)} PDFs created in '{self.output_folder}' folder\<close>\<close>

text \<open>
  The state the program acts on: the regular files by path, the creation date that the
  PDF file at a path carries in its metadata, the directories, and the lines printed so
  far.
\<close>

record world =
  files :: "string \<rightharpoonup> file_content"
  creation_date :: "string \<rightharpoonup> nat"
  dirs :: "string set"
  stdout :: "event list"

definition print :: "event \<Rightarrow> world \<Rightarrow> world" where
  "print e w = w\<lparr>stdout := stdout w @ [e]\<rparr>"

text \<open>
  \<open>pd.read_excel(path, sheet_name=...)\<close>; \<open>None\<close> stands for the call without
  \<open>sheet_name\<close>, which reads the sheet at position 0.
\<close>

definition pd_read_excel :: "(string \<rightharpoonup> file_content) \<Rightarrow> string \<Rightarrow> string option \<Rightarrow> exn + dataframe" where
  "pd_read_excel fs path sheet_name =
     (case fs path of
        None \<Rightarrow> Inl (FileNotFoundError path)
      | Some (Workbook wb) \<Rightarrow>
          (case sheet_name of
             None \<Rightarrow> (case wb of [] \<Rightarrow> Inl (ValueError ''no sheet'') | (_, df) # _ \<Rightarrow> Inr df)
           | Some s \<Rightarrow> (case map_of wb s of None \<Rightarrow> Inl (ValueError s) | Some df \<Rightarrow> Inr df))
      | Some _ \<Rightarrow> Inl (ValueError path))"

text \<open>\<open>pd.ExcelFile(path).sheet_names\<close>.\<close>

definition pd_sheet_names :: "(string \<rightharpoonup> file_content) \<Rightarrow> string \<Rightarrow> exn + string list" where
  "pd_sheet_names fs path =
     (case fs path of
        None \<Rightarrow> Inl (FileNotFoundError path)
      | Some (Workbook wb) \<Rightarrow> Inr (map fst wb)
      | Some _ \<Rightarrow> Inl (ValueError path))"

text \<open>\<open>df.fillna('')\<close>: every null cell becomes the empty string; labels and shape stay.\<close>

definition fillna :: "dataframe \<Rightarrow> dataframe" where
  "fillna df = df\<lparr>data := map (map (\<lambda>v. if isna v then PStr [] else v)) (data df)\<rparr>"

text \<open>
  What the program does not decide. \<open>build_error\<close> tells which builds raise (an
  unwritable path, a full disk, a layout error) and \<open>partial_output\<close> what a build
  that raises leaves at its path: nothing (\<open>None\<close>, it raised before the file was
  opened) or the bytes written until then, possibly none, in place of whatever was
  there. \<open>now\<close> is the time of the run, which the PDF writer puts into every file
  as its creation date. \<open>float_str i\<close> is \<open>str(float(i))\<close>.
\<close>

record env =
  build_error :: "string \<Rightarrow> document \<Rightarrow> exn option"
  partial_output :: "string \<Rightarrow> document \<Rightarrow> string option"
  now :: nat
  float_str :: "int \<Rightarrow> string"

text \<open>The cells of numeric dtype, and those of float dtype among them.\<close>

fun is_numeric :: "pyval \<Rightarrow> bool" where
  "is_numeric (PInt _) = True"
| "is_numeric (PFloat _) = True"
| "is_numeric PNaN = True"
| "is_numeric _ = False"

fun is_float :: "pyval \<Rightarrow> bool" where
  "is_float (PFloat _) = True"
| "is_float PNaN = True"
| "is_float _ = False"

fun as_float :: "env \<Rightarrow> pyval \<Rightarrow> pyval" where
  "as_float ev (PInt i) = PFloat (float_str ev i)"
| "as_float ev v = v"

text \<open>
  One row of \<open>df.values\<close>. The values of a frame are brought to one common dtype:
  when every column is numeric and one of them is a float column, the integers become
  floats; with any other column the common dtype is \<open>object\<close> and every cell stays
  what it is.
\<close>

definition row_values :: "env \<Rightarrow> dataframe \<Rightarrow> pyval list \<Rightarrow> pyval list" where
  "row_values ev df r =
     (if list_all (list_all is_numeric) (data df) \<and> list_ex (list_ex is_float) (data df)
      then map (as_float ev) r else r)"

text \<open>
  \<open>df.iterrows()\<close>: the index label of each row with the row as a Series, that is
  the row's values paired with their column labels, in column order.
\<close>

definition iterrows :: "env \<Rightarrow> dataframe \<Rightarrow> (nat \<times> (pyval \<times> pyval) list) list" where
  "iterrows ev df = enumerate 0 (map (\<lambda>r. zip (columns df) (row_values ev df r)) (data df))"

text \<open>
  \<open>doc.build\<close>: the exception it raises, if any, and the state it leaves. A build
  that succeeds writes the document, stamped with the time of the run, to its path.
\<close>

definition doc_build :: "env \<Rightarrow> string \<Rightarrow> document \<Rightarrow> world \<Rightarrow> exn option \<times> world" where
  "doc_build ev path doc w =
     (case build_error ev path doc of
        None \<Rightarrow>
          (None, w\<lparr>files := (files w)(path \<mapsto> PdfDoc doc),
                    creation_date := (creation_date w)(path \<mapsto> now ev)\<rparr>)
      | Some e \<Rightarrow>
          (Some e,
           case partial_output ev path doc of
             None \<Rightarrow> w
           | Some bytes \<Rightarrow>
               w\<lparr>files := (files w)(path \<mapsto> Blob bytes),
                 creation_date := (creation_date w)(path := None)\<rparr>))"

text \<open>
  \<open>Path(folder).mkdir(parents=True, exist_ok=True)\<close>: raises when a regular file has
  that path, otherwise the directory exists afterwards. Parent directories created on
  the way are not tracked.
\<close>

definition mkdir_p :: "string \<Rightarrow> world \<Rightarrow> exn + world" where
  "mkdir_p folder w =
     (case files w folder of
        Some _ \<Rightarrow> Inl (FileExistsError folder)
      | None \<Rightarrow> Inr (w\<lparr>dirs := insert folder (dirs w)\<rparr>))"

section \<open>ExcelToPdfConverter\<close>

record converter =
  excel_file_path :: string
  output_folder :: string

text \<open>
  An argument with a default value is an option: \<open>None\<close> is the call that leaves
  the argument out.
\<close>

definition or_default :: "'a option \<Rightarrow> 'a \<Rightarrow> 'a" where
  "or_default arg d = (case arg of None \<Rightarrow> d | Some v \<Rightarrow> v)"

definition init :: "string \<Rightarrow> string option \<Rightarrow> world \<Rightarrow> converter outcome \<times> world" where
  "init excel_file_path_arg output_folder_arg w =
     (let self = \<lparr>excel_file_path = excel_file_path_arg,
                  output_folder = or_default output_folder_arg ''pdf_output''\<rparr>
      in case mkdir_p (output_folder self) w of
           Inl e \<Rightarrow> (Raise e, w)
         | Inr w' \<Rightarrow> (Return self, w'))"

text \<open>
  The truth value of the \<open>sheet_name\<close> argument, a string or \<open>None\<close>: false for
  \<open>None\<close> and for the empty string.
\<close>

definition truthy :: "string option \<Rightarrow> bool" where
  "truthy sheet_name = (case sheet_name of None \<Rightarrow> False | Some s \<Rightarrow> s \<noteq> [])"

definition read_excel_data :: "converter \<Rightarrow> string option \<Rightarrow> world \<Rightarrow> dataframe option outcome \<times> world" where
  "read_excel_data self sheet_name w =
     (case (if truthy sheet_name
            then pd_read_excel (files w) (excel_file_path self) sheet_name
            else pd_read_excel (files w) (excel_file_path self) None) of
        Inr df0 \<Rightarrow>
          (let df = fillna df0
           in (Return (Some df), print (ReadOk (length (data df)) (length (columns df))) w))
      | Inl e \<Rightarrow> (Return None, print (ReadError e) w))"

definition pdf_filename :: "string \<Rightarrow> int \<Rightarrow> string" where
  "pdf_filename filename_prefix row_index =
     filename_prefix @ ''_'' @ format_03d (row_index + 1) @ ''.pdf''"

definition value_str :: "pyval \<Rightarrow> string" where
  "value_str v = (if isna v then [] else if is_number v then py_str v else py_str v)"

definition row_document :: "(pyval \<times> pyval) list \<Rightarrow> int \<Rightarrow> document" where
  "row_document row_data row_index =
     \<lparr>title = ''Record '' @ str_int (row_index + 1),
      table_data = map (\<lambda>(column_name, v). (py_str column_name, value_str v)) row_data\<rparr>"

definition create_pdf_from_row ::
  "env \<Rightarrow> converter \<Rightarrow> (pyval \<times> pyval) list \<Rightarrow> int \<Rightarrow> string option \<Rightarrow> world \<Rightarrow> pyval outcome \<times> world" where
  "create_pdf_from_row ev self row_data row_index prefix_arg w =
     (let filename_prefix = or_default prefix_arg ''row'';
          name = pdf_filename filename_prefix row_index;
          pdf_path = os_path_join (output_folder self) name;
          doc = row_document row_data row_index
      in case doc_build ev pdf_path doc w of
           (None, w') \<Rightarrow> (Return PNone, print (Created name) w')
         | (Some e, w') \<Rightarrow> (Return PNone, print (CreateError name e) w'))"

text \<open>The \<open>for index, row in df.iterrows()\<close> loop; an exception that escaped a row would end it.\<close>

fun rows_loop ::
  "env \<Rightarrow> converter \<Rightarrow> string \<Rightarrow> (nat \<times> (pyval \<times> pyval) list) list \<Rightarrow> world \<Rightarrow> pyval outcome \<times> world" where
  "rows_loop ev self filename_prefix [] w = (Return PNone, w)"
| "rows_loop ev self filename_prefix ((index, row) # rest) w =
     (case create_pdf_from_row ev self row (int index) (Some filename_prefix) w of
        (Raise e, w') \<Rightarrow> (Raise e, w')
      | (Return _, w') \<Rightarrow> rows_loop ev self filename_prefix rest w')"

definition convert_all_rows ::
  "env \<Rightarrow> converter \<Rightarrow> string option \<Rightarrow> string option \<Rightarrow> world \<Rightarrow> pyval outcome \<times> world" where
  "convert_all_rows ev self sheet_name prefix_arg w =
     (let filename_prefix = or_default prefix_arg ''row''
      in case read_excel_data self sheet_name w of
           (Raise e, w1) \<Rightarrow> (Raise e, w1)
         | (Return None, w1) \<Rightarrow> (Return PNone, w1)
         | (Return (Some df), w1) \<Rightarrow>
             (case rows_loop ev self filename_prefix (iterrows ev df) (print (Processing (length (data df))) w1) of
                (Raise e, w2) \<Rightarrow> (Raise e, w2)
              | (Return _, w2) \<Rightarrow>
                  (Return PNone, print (Complete (length (data df)) (output_folder self)) w2)))"

definition list_sheets :: "converter \<Rightarrow> world \<Rightarrow> string list outcome \<times> world" where
  "list_sheets self w =
     (case pd_sheet_names (files w) (excel_file_path self) of
        Inr names \<Rightarrow> (Return names, w)
      | Inl e \<Rightarrow> (Return [], print (ReadError e) w))"

section \<open>Auxiliary definitions for the proofs\<close>

text \<open>Reading a decimal numeral back, leading zeros allowed; only used to show that file names differ.\<close>

definition digit_val :: "char \<Rightarrow> nat" where
  "digit_val c = of_char c - 48"

definition parse_nat :: "string \<Rightarrow> nat" where
  "parse_nat s = foldl (\<lambda>a c. 10 * a + digit_val c) 0 s"

text \<open>
  The sheet a call is to convert, read off the workbook itself: the sheet with the given
  name when a non-empty name is given, the first sheet otherwise.
\<close>

definition selected_sheet :: "workbook \<Rightarrow> string option \<Rightarrow> dataframe option" where
  "selected_sheet wb sheet_name =
     (case sheet_name of
        Some (c # cs) \<Rightarrow> map_of wb (c # cs)
      | _ \<Rightarrow> (case wb of [] \<Rightarrow> None | (_, df) # _ \<Rightarrow> Some df))"

text \<open>The path of the file written for the row with index \<open>i\<close>.\<close>

definition out_path :: "converter \<Rightarrow> string \<Rightarrow> nat \<Rightarrow> string" where
  "out_path self filename_prefix i =
     os_path_join (output_folder self) (pdf_filename filename_prefix (int i))"

text \<open>
  What is at its path after a build: the document, or what the failed build left there,
  the file that was there before or the bytes written until it raised.
\<close>

definition build_leaves :: "env \<Rightarrow> string \<Rightarrow> document \<Rightarrow> file_content option \<Rightarrow> file_content option" where
  "build_leaves ev path doc old =
     (case build_error ev path doc of
        None \<Rightarrow> Some (PdfDoc doc)
      | Some e \<Rightarrow> (case partial_output ev path doc of None \<Rightarrow> old | Some bytes \<Rightarrow> Some (Blob bytes)))"

text \<open>The creation date carried by the file at its path after a build.\<close>

definition date_leaves :: "env \<Rightarrow> string \<Rightarrow> document \<Rightarrow> nat option \<Rightarrow> nat option" where
  "date_leaves ev path doc old =
     (case build_error ev path doc of
        None \<Rightarrow> Some (now ev)
      | Some e \<Rightarrow> (case partial_output ev path doc of None \<Rightarrow> old | Some bytes \<Rightarrow> None))"

text \<open>The line a row prints: its build succeeded or raised.\<close>

definition row_event :: "env \<Rightarrow> converter \<Rightarrow> string \<Rightarrow> nat \<times> (pyval \<times> pyval) list \<Rightarrow> event" where
  "row_event ev self filename_prefix ir =
     (case build_error ev (out_path self filename_prefix (fst ir)) (row_document (snd ir) (int (fst ir))) of
        None \<Rightarrow> Created (pdf_filename filename_prefix (int (fst ir)))
      | Some e \<Rightarrow> CreateError (pdf_filename filename_prefix (int (fst ir))) e)"

text \<open>The number of \<open>Created PDF\<close> lines among the printed lines.\<close>

fun is_created :: "event \<Rightarrow> bool" where
  "is_created (Created _) = True"
| "is_created _ = False"

definition created_count :: "event list \<Rightarrow> nat" where
  "created_count es = length (filter is_created es)"

section \<open>Sample inputs\<close>

text \<open>
  A workbook with two sheets in a folder that already holds an unrelated file. The first
  sheet has four rows over the columns \<open>Name\<close> and \<open>Age\<close> and two missing
  cells; the second has one row of an integer and a float column. \<open>stale_world\<close>
  also holds a file of an earlier run under the name of the second row.
\<close>

definition emp_df :: dataframe where
  "emp_df = \<lparr>columns = [PStr ''Name'', PStr ''Age''],
             data = [[PStr ''John'', PInt 28], [PNaN, PInt 35], [PStr ''Mike'', PNone], [PStr ''Sarah'', PInt 29]]\<rparr>"

definition other_df :: dataframe where
  "other_df = \<lparr>columns = [PStr ''Qty'', PStr ''Price''], data = [[PInt 3, PFloat ''2.5'']]\<rparr>"

definition emp_world :: world where
  "emp_world = \<lparr>files = [''emp.xlsx'' \<mapsto> Workbook [(''Staff'', emp_df), (''Other'', other_df)],
                          ''out/notes.txt'' \<mapsto> Blob ''keep''],
                 creation_date = Map.empty, dirs = {''out''}, stdout = []\<rparr>"

definition stale_world :: world where
  "stale_world = emp_world\<lparr>files := (files emp_world)(''out/emp_002.pdf'' \<mapsto> Blob ''old'')\<rparr>"

text \<open>
  An environment in which every build succeeds; the same one at a later time; one in
  which the build of the second row finds the disk full and leaves an empty file; and
  one in which it raises before its file is opened.
\<close>

definition ok_env :: env where
  "ok_env = \<lparr>build_error = (\<lambda>p d. None), partial_output = (\<lambda>p d. None), now = 1000,
              float_str = (\<lambda>i. str_int i @ ''.0'')\<rparr>"

definition later_env :: env where
  "later_env = ok_env\<lparr>now := 2000\<rparr>"

definition bad_env :: env where
  "bad_env = ok_env\<lparr>build_error := (\<lambda>p d. if p = ''out/emp_002.pdf'' then Some (OSError ''disk full'') else None),
                     partial_output := (\<lambda>p d. if p = ''out/emp_002.pdf'' then Some [] else None)\<rparr>"

definition early_env :: env where
  "early_env = ok_env\<lparr>build_error := (\<lambda>p d. if p = ''out/emp_002.pdf'' then Some (ValueError ''layout'') else None)\<rparr>"

definition emp_conv :: converter where
  "emp_conv = \<lparr>excel_file_path = ''emp.xlsx'', output_folder = ''out''\<rparr>"

definition lost_conv :: converter where
  "lost_conv = \<lparr>excel_file_path = ''lost.xlsx'', output_folder = ''out''\<rparr>"

section \<open>Formatting lemmas\<close>

lemma str_nat_nonempty: "str_nat n \<noteq> []"
  by (subst str_nat.simps) simp

lemma digit_val_digit_char: "d < 10 \<Longrightarrow> digit_val (digit_char d) = d"
proof -
  assume "d < 10"
  then have "d \<in> {0,1,2,3,4,5,6,7,8,9}" by auto
  then show ?thesis
    by (auto simp: digit_val_def digit_char_def)
qed

lemma parse_nat_snoc: "parse_nat (s @ [c]) = 10 * parse_nat s + digit_val c"
  by (simp add: parse_nat_def)

lemma parse_nat_str_nat: "parse_nat (str_nat n) = n"
proof (induction n rule: str_nat.induct)
  case (1 n)
  show ?case
  proof (cases "n < 10")
    case True
    then show ?thesis
      by (subst str_nat.simps) (simp add: parse_nat_def digit_val_digit_char)
  next
    case False
    with 1 have "parse_nat (str_nat (n div 10)) = n div 10" by simp
    with False show ?thesis
      by (subst str_nat.simps) (simp add: parse_nat_snoc digit_val_digit_char)
  qed
qed

lemma parse_nat_zeros: "parse_nat (replicate k CHR ''0'' @ s) = parse_nat s"
proof -
  have "foldl (\<lambda>a c. 10 * a + digit_val c) 0 (replicate k CHR ''0'') = 0"
    by (induction k) (simp_all add: digit_val_def)
  then show ?thesis by (simp add: parse_nat_def)
qed

lemma parse_nat_format_03d: "0 \<le> i \<Longrightarrow> parse_nat (format_03d i) = nat i"
  by (simp add: format_03d_def zfill_def parse_nat_zeros parse_nat_str_nat)

lemma pdf_filename_inj:
  assumes "pdf_filename pfx (int i) = pdf_filename pfx (int j)"
  shows "i = j"
proof -
  from assms have "format_03d (int i + 1) = format_03d (int j + 1)"
    by (simp add: pdf_filename_def)
  then have "parse_nat (format_03d (int i + 1)) = parse_nat (format_03d (int j + 1))"
    by simp
  then show ?thesis
    by (simp add: parse_nat_format_03d)
qed

section \<open>Output paths are distinct\<close>

lemma os_path_join_prefixed_inj:
  assumes "os_path_join a (pfx @ CHR ''_'' # x) = os_path_join a (pfx @ CHR ''_'' # y)"
  shows "x = y"
  using assms by (cases pfx) (auto simp: os_path_join_def split: if_splits)

lemma out_path_inj: "out_path self pfx i = out_path self pfx j \<Longrightarrow> i = j"
proof -
  assume h: "out_path self pfx i = out_path self pfx j"
  have "format_03d (int i + 1) @ ''.pdf'' = format_03d (int j + 1) @ ''.pdf''"
    using h os_path_join_prefixed_inj [of "output_folder self" pfx
        "format_03d (int i + 1) @ ''.pdf''" "format_03d (int j + 1) @ ''.pdf''"]
    by (simp add: out_path_def pdf_filename_def)
  then have "pdf_filename pfx (int i) = pdf_filename pfx (int j)"
    by (simp add: pdf_filename_def)
  then show ?thesis by (rule pdf_filename_inj)
qed

section \<open>One row and the loop over the rows\<close>

lemma doc_build_files:
  "files (snd (doc_build ev p d w)) = (files w)(p := build_leaves ev p d (files w p))"
  by (auto simp: doc_build_def build_leaves_def split: option.splits)

lemma doc_build_date:
  "creation_date (snd (doc_build ev p d w)) = (creation_date w)(p := date_leaves ev p d (creation_date w p))"
  by (auto simp: doc_build_def date_leaves_def split: option.splits)

lemma doc_build_rest:
  "dirs (snd (doc_build ev p d w)) = dirs w" "stdout (snd (doc_build ev p d w)) = stdout w"
  "fst (doc_build ev p d w) = build_error ev p d"
  by (simp_all add: doc_build_def split: option.splits)

lemma create_pdf_from_row_eq:
  "create_pdf_from_row ev self row (int i) (Some pfx) w =
     (Return PNone,
      (snd (doc_build ev (out_path self pfx i) (row_document row (int i)) w))
        \<lparr>stdout := stdout w @ [row_event ev self pfx (i, row)]\<rparr>)"
proof (cases "doc_build ev (out_path self pfx i) (row_document row (int i)) w")
  case (Pair r w')
  from doc_build_rest(2,3) [of ev "out_path self pfx i" "row_document row (int i)" w] Pair
  have s: "stdout w' = stdout w" and r: "r = build_error ev (out_path self pfx i) (row_document row (int i))"
    by simp_all
  show ?thesis
    using Pair s
    by (cases r) (simp_all add: create_pdf_from_row_def out_path_def [symmetric] row_event_def print_def
        or_default_def Let_def r [symmetric])
qed

lemma create_pdf_from_row_fields:
  "fst (create_pdf_from_row ev self row (int i) (Some pfx) w) = Return PNone"
  "files (snd (create_pdf_from_row ev self row (int i) (Some pfx) w)) =
     (files w)(out_path self pfx i := build_leaves ev (out_path self pfx i) (row_document row (int i)) (files w (out_path self pfx i)))"
  "creation_date (snd (create_pdf_from_row ev self row (int i) (Some pfx) w)) =
     (creation_date w)(out_path self pfx i := date_leaves ev (out_path self pfx i) (row_document row (int i)) (creation_date w (out_path self pfx i)))"
  "dirs (snd (create_pdf_from_row ev self row (int i) (Some pfx) w)) = dirs w"
  "stdout (snd (create_pdf_from_row ev self row (int i) (Some pfx) w)) = stdout w @ [row_event ev self pfx (i, row)]"
  by (simp_all add: create_pdf_from_row_eq doc_build_files doc_build_date doc_build_rest)

lemma rows_loop_Cons:
  "rows_loop ev self pfx ((i, row) # rest) w =
     rows_loop ev self pfx rest (snd (create_pdf_from_row ev self row (int i) (Some pfx) w))"
  by (simp add: create_pdf_from_row_eq)

lemma rows_loop_returns: "fst (rows_loop ev self pfx irs w) = Return PNone"
proof (induction irs arbitrary: w)
  case Nil
  show ?case by simp
next
  case (Cons ir irs)
  then show ?case by (cases ir) (simp only: rows_loop_Cons)
qed

lemma rows_loop_stdout:
  "stdout (snd (rows_loop ev self pfx irs w)) = stdout w @ map (row_event ev self pfx) irs"
proof (induction irs arbitrary: w)
  case Nil
  show ?case by simp
next
  case (Cons ir irs)
  then show ?case by (cases ir) (simp add: rows_loop_Cons create_pdf_from_row_fields del: rows_loop.simps)
qed

lemma rows_loop_dirs: "dirs (snd (rows_loop ev self pfx irs w)) = dirs w"
proof (induction irs arbitrary: w)
  case Nil
  show ?case by simp
next
  case (Cons ir irs)
  then show ?case by (cases ir) (simp add: rows_loop_Cons create_pdf_from_row_fields del: rows_loop.simps)
qed

lemma rows_loop_frame:
  "p \<notin> out_path self pfx ` fst ` set irs \<Longrightarrow> files (snd (rows_loop ev self pfx irs w)) p = files w p"
proof (induction irs arbitrary: w)
  case Nil
  show ?case by simp
next
  case (Cons ir irs)
  then show ?case by (cases ir) (simp add: rows_loop_Cons create_pdf_from_row_fields del: rows_loop.simps)
qed

lemma rows_loop_date_frame:
  "p \<notin> out_path self pfx ` fst ` set irs \<Longrightarrow>
     creation_date (snd (rows_loop ev self pfx irs w)) p = creation_date w p"
proof (induction irs arbitrary: w)
  case Nil
  show ?case by simp
next
  case (Cons ir irs)
  then show ?case by (cases ir) (simp add: rows_loop_Cons create_pdf_from_row_fields del: rows_loop.simps)
qed

lemma build_leaves_keeps: "old \<noteq> None \<Longrightarrow> build_leaves ev p d old \<noteq> None"
  by (simp add: build_leaves_def split: option.splits)

lemma rows_loop_keeps:
  "files w p \<noteq> None \<Longrightarrow> files (snd (rows_loop ev self pfx irs w)) p \<noteq> None"
proof (induction irs arbitrary: w)
  case Nil
  then show ?case by simp
next
  case (Cons ir irs)
  obtain i row where ir: "ir = (i, row)" by (cases ir)
  have "files (snd (create_pdf_from_row ev self row (int i) (Some pfx) w)) p \<noteq> None"
  proof (cases "p = out_path self pfx i")
    case True
    from build_leaves_keeps [OF Cons.prems, of ev p "row_document row (int i)"] show ?thesis
      by (simp add: True create_pdf_from_row_fields)
  next
    case False
    with Cons.prems show ?thesis
      by (simp add: create_pdf_from_row_fields)
  qed
  from Cons.IH [OF this] show ?case
    by (simp add: ir rows_loop_Cons del: rows_loop.simps)
qed

lemma rows_loop_file:
  assumes "distinct (map fst irs)" and "(i, row) \<in> set irs"
  shows "files (snd (rows_loop ev self pfx irs w)) (out_path self pfx i) =
           build_leaves ev (out_path self pfx i) (row_document row (int i)) (files w (out_path self pfx i))"
    and "creation_date (snd (rows_loop ev self pfx irs w)) (out_path self pfx i) =
           date_leaves ev (out_path self pfx i) (row_document row (int i)) (creation_date w (out_path self pfx i))"
  using assms
proof (induction irs arbitrary: w)
  case Nil
  {
    case 1 then show ?case by simp
  next
    case 2 then show ?case by simp
  }
next
  case (Cons ir irs)
  obtain j r where ir: "ir = (j, r)" by (cases ir)
  {
    case 1
    show ?case
    proof (cases "(i, row) = (j, r)")
      case True
      with 1 ir have "i \<notin> fst ` set irs" by auto
      then have "out_path self pfx i \<notin> out_path self pfx ` fst ` set irs"
        by (auto dest: out_path_inj)
      then show ?thesis
        using True by (simp add: ir rows_loop_Cons rows_loop_frame create_pdf_from_row_fields del: rows_loop.simps)
    next
      case False
      with 1 ir have mem: "(i, row) \<in> set irs" and d: "distinct (map fst irs)" and ne: "i \<noteq> j"
        by (auto simp: rev_image_eqI)
      from ne have "out_path self pfx i \<noteq> out_path self pfx j"
        by (auto dest: out_path_inj)
      then show ?thesis
        using Cons.IH(1) [OF d mem] by (simp add: ir rows_loop_Cons create_pdf_from_row_fields del: rows_loop.simps)
    qed
  next
    case 2
    show ?case
    proof (cases "(i, row) = (j, r)")
      case True
      with 2 ir have "i \<notin> fst ` set irs" by auto
      then have "out_path self pfx i \<notin> out_path self pfx ` fst ` set irs"
        by (auto dest: out_path_inj)
      then show ?thesis
        using True by (simp add: ir rows_loop_Cons rows_loop_date_frame create_pdf_from_row_fields del: rows_loop.simps)
    next
      case False
      with 2 ir have mem: "(i, row) \<in> set irs" and d: "distinct (map fst irs)" and ne: "i \<noteq> j"
        by (auto simp: rev_image_eqI)
      from ne have "out_path self pfx i \<noteq> out_path self pfx j"
        by (auto dest: out_path_inj)
      then show ?thesis
        using Cons.IH(2) [OF d mem] by (simp add: ir rows_loop_Cons create_pdf_from_row_fields del: rows_loop.simps)
    qed
  }
qed

section \<open>The reader and the batch driver\<close>

lemma read_excel_data_cases:
  "(\<exists>df0. pd_read_excel (files w) (excel_file_path self) (if truthy s then s else None) = Inr df0 \<and>
      read_excel_data self s w =
        (Return (Some (fillna df0)),
         w\<lparr>stdout := stdout w @ [ReadOk (length (data df0)) (length (columns df0))]\<rparr>)) \<or>
   (\<exists>e. pd_read_excel (files w) (excel_file_path self) (if truthy s then s else None) = Inl e \<and>
      read_excel_data self s w = (Return None, w\<lparr>stdout := stdout w @ [ReadError e]\<rparr>))"
  by (cases "pd_read_excel (files w) (excel_file_path self) (if truthy s then s else None)")
     (auto simp: read_excel_data_def fillna_def print_def)

lemma read_excel_data_Some:
  assumes "fst (read_excel_data self s w) = Return (Some df)"
  shows "read_excel_data self s w =
           (Return (Some df), w\<lparr>stdout := stdout w @ [ReadOk (length (data df)) (length (columns df))]\<rparr>)"
  using assms read_excel_data_cases [of w self s] by (auto simp: fillna_def)

lemma read_excel_data_None:
  assumes "fst (read_excel_data self s w) = Return None"
  shows "\<exists>e. read_excel_data self s w = (Return None, w\<lparr>stdout := stdout w @ [ReadError e]\<rparr>)"
  using assms read_excel_data_cases [of w self s] by auto

lemma read_excel_data_missing:
  assumes "files w (excel_file_path self) = None"
  shows "read_excel_data self s w =
           (Return None, w\<lparr>stdout := stdout w @ [ReadError (FileNotFoundError (excel_file_path self))]\<rparr>)"
  using assms by (simp add: read_excel_data_def pd_read_excel_def print_def)

text \<open>The reader returns the selected sheet of the workbook, with its null cells filled.\<close>

lemma read_excel_data_selected:
  assumes "files w (excel_file_path self) = Some (Workbook wb)"
      and "selected_sheet wb sheet_name = Some df0"
  shows "fst (read_excel_data self sheet_name w) = Return (Some (fillna df0))"
proof -
  have sel: "pd_read_excel (files w) (excel_file_path self) (if truthy sheet_name then sheet_name else None) = Inr df0"
  proof (cases sheet_name)
    case None
    with assms show ?thesis
      by (cases wb) (auto simp: pd_read_excel_def truthy_def selected_sheet_def)
  next
    case (Some s)
    with assms show ?thesis
      by (cases s; cases wb) (auto simp: pd_read_excel_def truthy_def selected_sheet_def)
  qed
  from read_excel_data_cases [of w self sheet_name] show ?thesis
    by (auto simp: sel)
qed

lemma convert_all_rows_Some:
  assumes "fst (read_excel_data self s w) = Return (Some df)"
  shows "convert_all_rows ev self s (Some pfx) w =
           (Return PNone,
            print (Complete (length (data df)) (output_folder self))
              (snd (rows_loop ev self pfx (iterrows ev df)
                 (w\<lparr>stdout := stdout w @ [ReadOk (length (data df)) (length (columns df)),
                                            Processing (length (data df))]\<rparr>))))"
proof -
  obtain r w2 where rl: "rows_loop ev self pfx (iterrows ev df)
       (w\<lparr>stdout := stdout w @ [ReadOk (length (data df)) (length (columns df)), Processing (length (data df))]\<rparr>) = (r, w2)"
    by (cases "rows_loop ev self pfx (iterrows ev df)
       (w\<lparr>stdout := stdout w @ [ReadOk (length (data df)) (length (columns df)), Processing (length (data df))]\<rparr>)")
  have r: "r = Return PNone"
    using rows_loop_returns [of ev self pfx "iterrows ev df"] rl by (metis fst_conv)
  show ?thesis
    by (simp add: convert_all_rows_def read_excel_data_Some [OF assms] or_default_def print_def rl r)
qed

lemma convert_all_rows_None:
  assumes "read_excel_data self s w = (Return None, w1)"
  shows "convert_all_rows ev self s pa w = (Return PNone, w1)"
  by (simp add: convert_all_rows_def assms)

lemma convert_all_rows_default_prefix:
  "convert_all_rows ev self s None w = convert_all_rows ev self s (Some ''row'') w"
  by (simp add: convert_all_rows_def or_default_def)

lemma convert_all_rows_prefix_arg:
  "convert_all_rows ev self s prefix_arg w = convert_all_rows ev self s (Some (or_default prefix_arg ''row'')) w"
  by (cases prefix_arg) (simp_all add: or_default_def convert_all_rows_default_prefix)

lemma iterrows_indices: "map fst (iterrows ev df) = [0..<length (data df)]"
  by (simp add: iterrows_def)

lemma iterrows_length: "length (iterrows ev df) = length (data df)"
  by (simp add: iterrows_def)

lemma iterrows_nth:
  "i < length (data df) \<Longrightarrow> iterrows ev df ! i = (i, zip (columns df) (row_values ev df (data df ! i)))"
  by (simp add: iterrows_def nth_enumerate_eq)

lemma iterrows_mem:
  assumes "i < length (data df)"
  shows "(i, snd (iterrows ev df ! i)) \<in> set (iterrows ev df)"
proof -
  from assms have "iterrows ev df ! i \<in> set (iterrows ev df)"
    by (simp add: iterrows_length)
  moreover have "iterrows ev df ! i = (i, snd (iterrows ev df ! i))"
    using assms by (simp add: iterrows_nth)
  ultimately show ?thesis by simp
qed

lemma out_path_image_iterrows:
  "out_path self pfx ` fst ` set (iterrows ev df) = out_path self pfx ` {..<length (data df)}"
proof -
  have "fst ` set (iterrows ev df) = set (map fst (iterrows ev df))" by simp
  also have "\<dots> = {..<length (data df)}"
    by (simp only: iterrows_indices) auto
  finally show ?thesis by simp
qed

lemma convert_all_rows_loop:
  assumes "fst (read_excel_data self s w) = Return (Some df)"
  shows "files (snd (convert_all_rows ev self s (Some pfx) w)) =
         files (snd (rows_loop ev self pfx (iterrows ev df)
                 (w\<lparr>stdout := stdout w @ [ReadOk (length (data df)) (length (columns df)),
                                            Processing (length (data df))]\<rparr>)))"
    and "creation_date (snd (convert_all_rows ev self s (Some pfx) w)) =
         creation_date (snd (rows_loop ev self pfx (iterrows ev df)
                 (w\<lparr>stdout := stdout w @ [ReadOk (length (data df)) (length (columns df)),
                                            Processing (length (data df))]\<rparr>)))"
  by (simp_all add: convert_all_rows_Some [OF assms] print_def)

lemma convert_all_rows_frame:
  assumes "\<forall>i. p \<noteq> out_path self pfx i"
  shows "files (snd (convert_all_rows ev self s (Some pfx) w)) p = files w p"
proof -
  from read_excel_data_cases [of w self s] show ?thesis
  proof (elim disjE exE conjE)
    fix df0
    assume r: "read_excel_data self s w =
        (Return (Some (fillna df0)), w\<lparr>stdout := stdout w @ [ReadOk (length (data df0)) (length (columns df0))]\<rparr>)"
    then have f: "fst (read_excel_data self s w) = Return (Some (fillna df0))" by simp
    from assms have "p \<notin> out_path self pfx ` fst ` set (iterrows ev (fillna df0))" by auto
    then show ?thesis
      by (simp add: convert_all_rows_loop [OF f] rows_loop_frame)
  next
    fix e
    assume "read_excel_data self s w = (Return None, w\<lparr>stdout := stdout w @ [ReadError e]\<rparr>)"
    then show ?thesis
      by (simp add: convert_all_rows_None)
  qed
qed

lemma convert_all_rows_file:
  assumes r: "fst (read_excel_data self s w) = Return (Some df)" and i: "i < length (data df)"
  shows "files (snd (convert_all_rows ev self s (Some pfx) w)) (out_path self pfx i) =
           build_leaves ev (out_path self pfx i) (row_document (snd (iterrows ev df ! i)) (int i))
             (files w (out_path self pfx i))"
    and "creation_date (snd (convert_all_rows ev self s (Some pfx) w)) (out_path self pfx i) =
           date_leaves ev (out_path self pfx i) (row_document (snd (iterrows ev df ! i)) (int i))
             (creation_date w (out_path self pfx i))"
proof -
  have d: "distinct (map fst (iterrows ev df))"
    by (simp add: iterrows_indices)
  show "files (snd (convert_all_rows ev self s (Some pfx) w)) (out_path self pfx i) =
           build_leaves ev (out_path self pfx i) (row_document (snd (iterrows ev df ! i)) (int i))
             (files w (out_path self pfx i))"
    by (simp add: convert_all_rows_loop [OF r] rows_loop_file(1) [OF d iterrows_mem [OF i]])
  show "creation_date (snd (convert_all_rows ev self s (Some pfx) w)) (out_path self pfx i) =
           date_leaves ev (out_path self pfx i) (row_document (snd (iterrows ev df ! i)) (int i))
             (creation_date w (out_path self pfx i))"
    by (simp add: convert_all_rows_loop [OF r] rows_loop_file(2) [OF d iterrows_mem [OF i]])
qed

lemma convert_all_rows_other:
  assumes r: "fst (read_excel_data self s w) = Return (Some df)"
      and p: "p \<notin> out_path self pfx ` {..<length (data df)}"
  shows "files (snd (convert_all_rows ev self s (Some pfx) w)) p = files w p"
    and "creation_date (snd (convert_all_rows ev self s (Some pfx) w)) p = creation_date w p"
  using p
  by (simp_all add: convert_all_rows_loop [OF r] rows_loop_frame rows_loop_date_frame out_path_image_iterrows)

lemma convert_all_rows_stdout:
  assumes r: "fst (read_excel_data self s w) = Return (Some df)"
  shows "stdout (snd (convert_all_rows ev self s (Some pfx) w)) =
           stdout w @ [ReadOk (length (data df)) (length (columns df)), Processing (length (data df))]
             @ map (row_event ev self pfx) (iterrows ev df)
             @ [Complete (length (data df)) (output_folder self)]"
  by (simp add: convert_all_rows_Some [OF r] print_def rows_loop_stdout)

lemma convert_all_rows_dirs: "dirs (snd (convert_all_rows ev self s (Some pfx) w)) = dirs w"
proof -
  from read_excel_data_cases [of w self s] show ?thesis
  proof (elim disjE exE conjE)
    fix df0
    assume "read_excel_data self s w =
        (Return (Some (fillna df0)), w\<lparr>stdout := stdout w @ [ReadOk (length (data df0)) (length (columns df0))]\<rparr>)"
    then have f: "fst (read_excel_data self s w) = Return (Some (fillna df0))" by simp
    show ?thesis
      by (simp add: convert_all_rows_Some [OF f] print_def rows_loop_dirs)
  next
    fix e
    assume "read_excel_data self s w = (Return None, w\<lparr>stdout := stdout w @ [ReadError e]\<rparr>)"
    then show ?thesis
      by (simp add: convert_all_rows_None)
  qed
qed

lemma convert_all_rows_returns: "fst (convert_all_rows ev self s pa w) = Return PNone"
proof -
  from read_excel_data_cases [of w self s] show ?thesis
  proof (elim disjE exE conjE)
    fix df0
    assume "read_excel_data self s w =
        (Return (Some (fillna df0)), w\<lparr>stdout := stdout w @ [ReadOk (length (data df0)) (length (columns df0))]\<rparr>)"
    then have f: "fst (read_excel_data self s w) = Return (Some (fillna df0))" by simp
    show ?thesis
      by (simp add: convert_all_rows_prefix_arg [of ev self s pa] convert_all_rows_Some [OF f])
  next
    fix e
    assume "read_excel_data self s w = (Return None, w\<lparr>stdout := stdout w @ [ReadError e]\<rparr>)"
    then show ?thesis
      by (simp add: convert_all_rows_None)
  qed
qed

lemma convert_all_rows_keeps:
  assumes "files w p \<noteq> None"
  shows "files (snd (convert_all_rows ev self s (Some pfx) w)) p \<noteq> None"
proof -
  from read_excel_data_cases [of w self s] show ?thesis
  proof (elim disjE exE conjE)
    fix df0
    assume "read_excel_data self s w =
        (Return (Some (fillna df0)), w\<lparr>stdout := stdout w @ [ReadOk (length (data df0)) (length (columns df0))]\<rparr>)"
    then have f: "fst (read_excel_data self s w) = Return (Some (fillna df0))" by simp
    show ?thesis
      using assms by (simp add: convert_all_rows_loop [OF f] rows_loop_keeps)
  next
    fix e
    assume "read_excel_data self s w = (Return None, w\<lparr>stdout := stdout w @ [ReadError e]\<rparr>)"
    then show ?thesis
      using assms by (simp add: convert_all_rows_None)
  qed
qed

lemma convert_all_rows_stdout_nth:
  assumes r: "fst (read_excel_data self s w) = Return (Some df)" and j: "j < length (data df)"
  shows "stdout (snd (convert_all_rows ev self s (Some pfx) w)) ! (length (stdout w) + 2 + j) =
           row_event ev self pfx (j, snd (iterrows ev df ! j))"
proof -
  have "(stdout w @ [ReadOk (length (data df)) (length (columns df)), Processing (length (data df))]
             @ map (row_event ev self pfx) (iterrows ev df)
             @ [Complete (length (data df)) (output_folder self)]) ! (length (stdout w) + 2 + j) =
        (map (row_event ev self pfx) (iterrows ev df) @ [Complete (length (data df)) (output_folder self)]) ! j"
    by (simp add: nth_append)
  also have "\<dots> = row_event ev self pfx (iterrows ev df ! j)"
    using j by (simp add: nth_append iterrows_length)
  finally show ?thesis
    using j by (simp add: convert_all_rows_stdout [OF r] iterrows_nth)
qed

lemma convert_all_rows_stdout_ends:
  assumes r: "fst (read_excel_data self s w) = Return (Some df)"
  shows "last (stdout (snd (convert_all_rows ev self s (Some pfx) w))) =
           Complete (length (data df)) (output_folder self)"
    and "length (stdout (snd (convert_all_rows ev self s (Some pfx) w))) =
           length (stdout w) + length (data df) + 3"
    and "stdout (snd (convert_all_rows ev self s (Some pfx) w)) ! (length (stdout w) + 1) =
           Processing (length (data df))"
  by (simp_all add: convert_all_rows_stdout [OF r] iterrows_length nth_append)

lemma out_path_distinct: "distinct (map (out_path self pfx) [0..<n])"
  by (simp add: distinct_map inj_on_def) (blast dest: out_path_inj)

lemma str_nat_digit: "n < 10 \<Longrightarrow> str_nat n = [digit_char n]"
  by (subst str_nat.simps) simp

lemma str_nat_length_3: "n < 1000 \<Longrightarrow> length (str_nat n) \<le> 3"
  by (simp add: str_nat.simps [of n] str_nat.simps [of "n div 10"] str_nat.simps [of "n div 10 div 10"])

lemma format_03d_width: "n < 1000 \<Longrightarrow> length (format_03d (int n)) = 3"
  using str_nat_length_3 [of n] by (simp add: format_03d_def zfill_def)

lemma created_count_append: "created_count (xs @ ys) = created_count xs + created_count ys"
  by (simp add: created_count_def)

lemma created_count_simps:
  "created_count [] = 0"
  "created_count (x # xs) = (if is_created x then 1 else 0) + created_count xs"
  by (simp_all add: created_count_def)

lemma emp_name_1: "pdf_filename ''emp'' 0 = ''emp_001.pdf''"
  by (simp add: pdf_filename_def format_03d_def zfill_def str_nat_digit digit_char_def numeral_2_eq_2)

lemma create_pdf_from_row_ok:
  assumes "build_error ev (os_path_join (output_folder self) (pdf_filename (or_default prefix_arg ''row'') row_index))
             (row_document row_data row_index) = None"
  shows "create_pdf_from_row ev self row_data row_index prefix_arg w =
     (Return PNone,
      w\<lparr>files := (files w)(os_path_join (output_folder self) (pdf_filename (or_default prefix_arg ''row'') row_index)
                \<mapsto> PdfDoc (row_document row_data row_index)),
        creation_date := (creation_date w)
           (os_path_join (output_folder self) (pdf_filename (or_default prefix_arg ''row'') row_index) \<mapsto> now ev),
        stdout := stdout w @ [Created (pdf_filename (or_default prefix_arg ''row'') row_index)]\<rparr>)"
  using assms by (simp add: create_pdf_from_row_def doc_build_def print_def Let_def)

lemma row_values_object:
  assumes "i < length (data df)" and "j < length (data df ! i)" and "\<not> is_numeric (data df ! i ! j)"
  shows "row_values ev df r = r"
proof -
  from assms have "data df ! i \<in> set (data df)" and "data df ! i ! j \<in> set (data df ! i)"
    by simp_all
  with assms(3) have "\<not> list_all (list_all is_numeric) (data df)"
    by (auto simp: list_all_iff)
  then show ?thesis
    by (simp add: row_values_def)
qed

lemma list_sheets_cases:
  "list_sheets self w =
     (case files w (excel_file_path self) of
        None \<Rightarrow> (Return [], w\<lparr>stdout := stdout w @ [ReadError (FileNotFoundError (excel_file_path self))]\<rparr>)
      | Some (Workbook wb) \<Rightarrow> (Return (map fst wb), w)
      | Some _ \<Rightarrow> (Return [], w\<lparr>stdout := stdout w @ [ReadError (ValueError (excel_file_path self))]\<rparr>))"
  by (simp add: list_sheets_def pd_sheet_names_def print_def split: option.splits file_content.splits)

lemma list_sheets_unreadable:
  assumes "\<forall>wb. files w (excel_file_path self) \<noteq> Some (Workbook wb)"
  shows "\<exists>e. list_sheets self w = (Return [], w\<lparr>stdout := stdout w @ [ReadError e]\<rparr>)"
proof -
  from assms have "\<exists>e. pd_sheet_names (files w) (excel_file_path self) = Inl e"
    by (simp add: pd_sheet_names_def split: option.splits file_content.splits)
  then obtain e where "pd_sheet_names (files w) (excel_file_path self) = Inl e" ..
  then have "list_sheets self w = (Return [], w\<lparr>stdout := stdout w @ [ReadError e]\<rparr>)"
    by (simp add: list_sheets_def print_def)
  then show ?thesis ..
qed

lemma fillna_shape:
  "columns (fillna df0) = columns df0 \<and> length (data (fillna df0)) = length (data df0) \<and>
   (i < length (data df0) \<longrightarrow> length (data (fillna df0) ! i) = length (data df0 ! i))"
  by (simp add: fillna_def)

lemma fillna_cell:
  assumes "i < length (data df0)" and "j < length (data df0 ! i)"
  shows "data (fillna df0) ! i ! j = (if isna (data df0 ! i ! j) then PStr [] else data df0 ! i ! j)"
  using assms by (simp add: fillna_def)

lemma value_str_isna: "isna v \<Longrightarrow> value_str v = []"
  by (simp add: value_str_def)

lemma row_document_nth:
  assumes "j < length row_data"
  shows "table_data (row_document row_data row_index) ! j =
           (py_str (fst (row_data ! j)), value_str (snd (row_data ! j)))"
  using assms by (simp add: row_document_def case_prod_beta)

section \<open>The sample inputs evaluated\<close>

lemma emp_read: "fst (read_excel_data emp_conv None emp_world) = Return (Some (fillna emp_df))"
  by (simp add: read_excel_data_def truthy_def pd_read_excel_def emp_conv_def emp_world_def Let_def)

lemma emp_workbook:
  "files emp_world (excel_file_path emp_conv) = Some (Workbook [(''Staff'', emp_df), (''Other'', other_df)])"
  "files stale_world (excel_file_path emp_conv) = Some (Workbook [(''Staff'', emp_df), (''Other'', other_df)])"
  by (simp_all add: emp_world_def stale_world_def emp_conv_def)

lemma emp_selected:
  "selected_sheet [(''Staff'', emp_df), (''Other'', other_df)] None = Some emp_df"
  "selected_sheet [(''Staff'', emp_df), (''Other'', other_df)] (Some ''Other'') = Some other_df"
  by (simp_all add: selected_sheet_def)

lemma emp_filled:
  "fillna emp_df = \<lparr>columns = [PStr ''Name'', PStr ''Age''],
      data = [[PStr ''John'', PInt 28], [PStr [], PInt 35], [PStr ''Mike'', PStr []], [PStr ''Sarah'', PInt 29]]\<rparr>"
  "fillna other_df = other_df"
  by (simp_all add: fillna_def emp_df_def other_df_def)

lemma emp_lengths:
  "length (data emp_df) = 4" "length (data other_df) = 1"
  by (simp_all add: emp_df_def other_df_def)

lemma emp_names:
  "pdf_filename ''emp'' 0 = ''emp_001.pdf''" "pdf_filename ''emp'' 1 = ''emp_002.pdf''"
  "pdf_filename ''emp'' 2 = ''emp_003.pdf''" "pdf_filename ''emp'' 3 = ''emp_004.pdf''"
  by (simp_all add: pdf_filename_def format_03d_def zfill_def str_nat_digit digit_char_def numeral_2_eq_2)

lemma emp_paths:
  "os_path_join (output_folder emp_conv) ''emp_001.pdf'' = ''out/emp_001.pdf''"
  "os_path_join (output_folder emp_conv) ''emp_002.pdf'' = ''out/emp_002.pdf''"
  "os_path_join (output_folder emp_conv) ''emp_003.pdf'' = ''out/emp_003.pdf''"
  "os_path_join (output_folder emp_conv) ''emp_004.pdf'' = ''out/emp_004.pdf''"
  by (simp_all add: os_path_join_def emp_conv_def)

lemma emp_out_paths:
  "out_path emp_conv ''emp'' 0 = ''out/emp_001.pdf''" "out_path emp_conv ''emp'' 1 = ''out/emp_002.pdf''"
  "out_path emp_conv ''emp'' 2 = ''out/emp_003.pdf''" "out_path emp_conv ''emp'' 3 = ''out/emp_004.pdf''"
  "out_path emp_conv ''emp'' (Suc 0) = ''out/emp_002.pdf''"
  by (simp_all add: out_path_def emp_names emp_paths)

lemma emp_iterrows:
  "iterrows ev (fillna emp_df) =
     [(0, [(PStr ''Name'', PStr ''John''), (PStr ''Age'', PInt 28)]),
      (1, [(PStr ''Name'', PStr []), (PStr ''Age'', PInt 35)]),
      (2, [(PStr ''Name'', PStr ''Mike''), (PStr ''Age'', PStr [])]),
      (3, [(PStr ''Name'', PStr ''Sarah''), (PStr ''Age'', PInt 29)])]"
  by (simp add: iterrows_def row_values_def emp_filled eval_nat_numeral)

lemma other_iterrows:
  "iterrows ev other_df = [(0, [(PStr ''Qty'', PFloat (float_str ev 3)), (PStr ''Price'', PFloat ''2.5'')])]"
  by (simp add: iterrows_def row_values_def other_df_def)

lemma emp_docs:
  "row_document [(PStr ''Name'', PStr ''John''), (PStr ''Age'', PInt 28)] 0 =
     \<lparr>title = ''Record 1'', table_data = [(''Name'', ''John''), (''Age'', ''28'')]\<rparr>"
  "row_document [(PStr ''Name'', PStr []), (PStr ''Age'', PInt 35)] 1 =
     \<lparr>title = ''Record 2'', table_data = [(''Name'', []), (''Age'', ''35'')]\<rparr>"
  "row_document [(PStr ''Name'', PStr ''Mike''), (PStr ''Age'', PStr [])] 2 =
     \<lparr>title = ''Record 3'', table_data = [(''Name'', ''Mike''), (''Age'', [])]\<rparr>"
  "row_document [(PStr ''Name'', PStr ''Sarah''), (PStr ''Age'', PInt 29)] 3 =
     \<lparr>title = ''Record 4'', table_data = [(''Name'', ''Sarah''), (''Age'', ''29'')]\<rparr>"
  "row_document [(PStr ''Qty'', PFloat ''3.0''), (PStr ''Price'', PFloat ''2.5'')] 0 =
     \<lparr>title = ''Record 1'', table_data = [(''Qty'', ''3.0''), (''Price'', ''2.5'')]\<rparr>"
  by (simp_all add: row_document_def value_str_def str_int_def str_nat.simps digit_char_def)

lemma ok_float_3: "float_str ok_env 3 = ''3.0''"
  by (simp add: ok_env_def str_int_def str_nat_digit digit_char_def)

lemma emp_dom: "dom (files emp_world) = {''emp.xlsx'', ''out/notes.txt''}"
  by (auto simp: emp_world_def)

lemma lessThan_4: "{..<4::nat} = {0, 1, 2, 3}"
  by auto

section \<open>Runs in which no row fails\<close>

lemma build_leaves_ok: "build_error ev p d = None \<Longrightarrow> build_leaves ev p d old = Some (PdfDoc d)"
  by (simp add: build_leaves_def)

lemma convert_all_rows_dom:
  assumes r: "fst (read_excel_data self s w) = Return (Some df)"
      and ok: "\<forall>i<length (data df). build_error ev (out_path self pfx i)
                 (row_document (snd (iterrows ev df ! i)) (int i)) = None"
  shows "dom (files (snd (convert_all_rows ev self s (Some pfx) w))) =
           dom (files w) \<union> out_path self pfx ` {..<length (data df)}"
proof (intro set_eqI iffI)
  fix p
  assume p: "p \<in> dom (files (snd (convert_all_rows ev self s (Some pfx) w)))"
  show "p \<in> dom (files w) \<union> out_path self pfx ` {..<length (data df)}"
  proof (cases "p \<in> out_path self pfx ` {..<length (data df)}")
    case True
    then show ?thesis by simp
  next
    case False
    from convert_all_rows_other(1) [OF r False] p show ?thesis by (simp add: dom_def)
  qed
next
  fix p
  assume "p \<in> dom (files w) \<union> out_path self pfx ` {..<length (data df)}"
  then show "p \<in> dom (files (snd (convert_all_rows ev self s (Some pfx) w)))"
  proof
    assume "p \<in> dom (files w)"
    then have "files w p \<noteq> None" by (simp add: dom_def)
    from convert_all_rows_keeps [OF this] show ?thesis by (simp add: dom_def)
  next
    assume "p \<in> out_path self pfx ` {..<length (data df)}"
    then obtain i where i: "i < length (data df)" and pi: "p = out_path self pfx i" by auto
    from ok i have "build_error ev (out_path self pfx i) (row_document (snd (iterrows ev df ! i)) (int i)) = None"
      by simp
    then show ?thesis
      by (simp add: pi convert_all_rows_file(1) [OF r i] build_leaves_ok dom_def)
  qed
qed

lemma row_event_ok:
  "build_error ev (out_path self pfx i) (row_document row (int i)) = None \<Longrightarrow>
     row_event ev self pfx (i, row) = Created (pdf_filename pfx (int i))"
  by (simp add: row_event_def)

lemma created_count_rows_ok:
  assumes "\<forall>ir\<in>set irs. build_error ev (out_path self pfx (fst ir)) (row_document (snd ir) (int (fst ir))) = None"
  shows "created_count (map (row_event ev self pfx) irs) = length irs"
  using assms by (induction irs) (simp_all add: created_count_def row_event_def)

lemma iterrows_all:
  assumes "\<forall>i<length (data df). P (i, snd (iterrows ev df ! i))"
  shows "\<forall>ir\<in>set (iterrows ev df). P ir"
proof
  fix ir
  assume "ir \<in> set (iterrows ev df)"
  then obtain i where i: "i < length (data df)" and ir: "ir = iterrows ev df ! i"
    by (auto simp: in_set_conv_nth iterrows_length)
  from i have e: "iterrows ev df ! i = (i, snd (iterrows ev df ! i))"
    by (simp add: iterrows_nth)
  from assms i have "P (i, snd (iterrows ev df ! i))" by blast
  then show "P ir" by (simp only: ir e [symmetric])
qed

section \<open>Runs in which a row fails\<close>

lemma build_leaves_failed:
  "build_error ev p d = Some e \<Longrightarrow>
     build_leaves ev p d old = (case partial_output ev p d of None \<Rightarrow> old | Some bytes \<Rightarrow> Some (Blob bytes))"
  by (simp add: build_leaves_def)

lemma row_event_failed:
  "build_error ev (out_path self pfx i) (row_document row (int i)) = Some e \<Longrightarrow>
     row_event ev self pfx (i, row) = CreateError (pdf_filename pfx (int i)) e"
  by (simp add: row_event_def)

lemma stale_read: "fst (read_excel_data emp_conv None stale_world) = Return (Some (fillna emp_df))"
  by (rule read_excel_data_selected [OF emp_workbook(2) emp_selected(1)])

lemma emp_row_2:
  "snd (iterrows ev (fillna emp_df) ! 1) = [(PStr ''Name'', PStr []), (PStr ''Age'', PInt 35)]"
  "snd (iterrows ev (fillna emp_df) ! 2) = [(PStr ''Name'', PStr ''Mike''), (PStr ''Age'', PStr [])]"
  by (simp_all add: emp_iterrows)

lemma bad_env_fields:
  "build_error bad_env ''out/emp_002.pdf'' d = Some (OSError ''disk full'')"
  "partial_output bad_env ''out/emp_002.pdf'' d = Some []"
  "build_error bad_env ''out/emp_001.pdf'' d = None"
  "build_error bad_env ''out/emp_003.pdf'' d = None"
  "build_error bad_env ''out/emp_004.pdf'' d = None"
  "build_error early_env ''out/emp_002.pdf'' d = Some (ValueError ''layout'')"
  "partial_output early_env ''out/emp_002.pdf'' d = None"
  by (simp_all add: bad_env_def early_env_def ok_env_def)

section \<open>What a run reports\<close>

lemma convert_all_rows_created_count:
  assumes r: "fst (read_excel_data self s w) = Return (Some df)"
      and ok: "\<forall>i<length (data df). build_error ev (out_path self pfx i)
                 (row_document (snd (iterrows ev df ! i)) (int i)) = None"
  shows "created_count (stdout (snd (convert_all_rows ev self s (Some pfx) w))) =
           created_count (stdout w) + length (data df)"
proof -
  from ok have "\<forall>ir\<in>set (iterrows ev df).
      build_error ev (out_path self pfx (fst ir)) (row_document (snd ir) (int (fst ir))) = None"
    by (intro iterrows_all) simp
  from created_count_rows_ok [OF this] show ?thesis
    by (simp add: convert_all_rows_stdout [OF r] created_count_append iterrows_length created_count_simps)
qed

lemma emp_bad_stdout:
  "stdout (snd (convert_all_rows bad_env emp_conv None (Some ''emp'') emp_world)) =
     [ReadOk 4 2, Processing 4, Created ''emp_001.pdf'',
      CreateError ''emp_002.pdf'' (OSError ''disk full''),
      Created ''emp_003.pdf'', Created ''emp_004.pdf'', Complete 4 ''out'']"
proof -
  have s: "stdout emp_world = []"
    by (simp add: emp_world_def)
  have l: "length (data (fillna emp_df)) = 4" "length (columns (fillna emp_df)) = 2"
    by (simp_all add: emp_filled)
  have f: "output_folder emp_conv = ''out''"
    by (simp add: emp_conv_def)
  have e: "map (row_event bad_env emp_conv ''emp'') (iterrows bad_env (fillna emp_df)) =
      [Created ''emp_001.pdf'', CreateError ''emp_002.pdf'' (OSError ''disk full''),
       Created ''emp_003.pdf'', Created ''emp_004.pdf'']"
    by (simp add: emp_iterrows row_event_def emp_out_paths emp_names bad_env_fields)
  show ?thesis
    by (simp add: convert_all_rows_stdout [OF emp_read] s l f e)
qed

section \<open>Files the run does not touch\<close>

lemma init_files: "files (snd (init excel_path folder_arg w)) = files w"
  by (simp add: init_def mkdir_p_def Let_def split: option.splits)

section \<open>Two runs\<close>

lemma iterrows_cong: "float_str ev1 = float_str ev2 \<Longrightarrow> iterrows ev1 df = iterrows ev2 df"
proof -
  assume f: "float_str ev1 = float_str ev2"
  have "as_float ev1 v = as_float ev2 v" for v
    by (cases v) (simp_all add: f)
  then have "as_float ev1 = as_float ev2" by (rule ext)
  then show ?thesis
    by (simp add: iterrows_def row_values_def cong: if_cong)
qed

lemma build_leaves_cong:
  "build_error ev1 = build_error ev2 \<Longrightarrow> partial_output ev1 = partial_output ev2 \<Longrightarrow>
     build_leaves ev1 p d old = build_leaves ev2 p d old"
  by (simp add: build_leaves_def split: option.splits)

lemma row_event_cong:
  "build_error ev1 = build_error ev2 \<Longrightarrow> row_event ev1 self pfx = row_event ev2 self pfx"
  by (rule ext) (simp add: row_event_def)

lemma convert_all_rows_changed:
  assumes r: "fst (read_excel_data self s w) = Return (Some df)"
      and v: "\<forall>i. files w (out_path self pfx i) = None"
  shows "{p. files (snd (convert_all_rows ev self s (Some pfx) w)) p \<noteq> files w p} =
           {p. \<exists>i<length (data df). p = out_path self pfx i \<and>
                 build_leaves ev p (row_document (snd (iterrows ev df ! i)) (int i)) None \<noteq> None}"
proof (intro set_eqI iffI)
  fix p
  assume "p \<in> {p. files (snd (convert_all_rows ev self s (Some pfx) w)) p \<noteq> files w p}"
  then have c: "files (snd (convert_all_rows ev self s (Some pfx) w)) p \<noteq> files w p" by simp
  have "p \<in> out_path self pfx ` {..<length (data df)}"
  proof (rule ccontr)
    assume "p \<notin> out_path self pfx ` {..<length (data df)}"
    from convert_all_rows_other(1) [OF r this] c show False by simp
  qed
  then obtain i where i: "i < length (data df)" and p: "p = out_path self pfx i" by auto
  from c have "build_leaves ev p (row_document (snd (iterrows ev df ! i)) (int i)) None \<noteq> None"
    using v by (simp add: p convert_all_rows_file(1) [OF r i])
  with i p show "p \<in> {p. \<exists>i<length (data df). p = out_path self pfx i \<and>
                 build_leaves ev p (row_document (snd (iterrows ev df ! i)) (int i)) None \<noteq> None}"
    by blast
next
  fix p
  assume "p \<in> {p. \<exists>i<length (data df). p = out_path self pfx i \<and>
                 build_leaves ev p (row_document (snd (iterrows ev df ! i)) (int i)) None \<noteq> None}"
  then obtain i where i: "i < length (data df)" and p: "p = out_path self pfx i"
    and b: "build_leaves ev p (row_document (snd (iterrows ev df ! i)) (int i)) None \<noteq> None"
    by blast
  from b show "p \<in> {p. files (snd (convert_all_rows ev self s (Some pfx) w)) p \<noteq> files w p}"
    using v by (simp add: p convert_all_rows_file(1) [OF r i])
qed

lemma convert_all_rows_at_out_path:
  assumes r: "fst (read_excel_data self s w) = Return (Some df)"
      and v: "\<forall>i. files w (out_path self pfx i) = None"
  shows "files (snd (convert_all_rows ev self s (Some pfx) w)) (out_path self pfx i) =
           (if i < length (data df)
            then build_leaves ev (out_path self pfx i) (row_document (snd (iterrows ev df ! i)) (int i)) None
            else None)"
proof (cases "i < length (data df)")
  case True
  then show ?thesis
    using v by (simp add: convert_all_rows_file(1) [OF r True])
next
  case False
  then have "out_path self pfx i \<notin> out_path self pfx ` {..<length (data df)}"
    by (auto dest: out_path_inj)
  from convert_all_rows_other(1) [OF r this] False v show ?thesis by simp
qed

lemma read_excel_data_two:
  assumes "files w1 (excel_file_path self) = files w2 (excel_file_path self)"
  shows "(\<exists>df. fst (read_excel_data self s w1) = Return (Some df) \<and>
               fst (read_excel_data self s w2) = Return (Some df)) \<or>
         (\<exists>e. read_excel_data self s w1 = (Return None, w1\<lparr>stdout := stdout w1 @ [ReadError e]\<rparr>) \<and>
              read_excel_data self s w2 = (Return None, w2\<lparr>stdout := stdout w2 @ [ReadError e]\<rparr>))"
proof -
  have c: "pd_read_excel (files w2) (excel_file_path self) (if truthy s then s else None) =
      pd_read_excel (files w1) (excel_file_path self) (if truthy s then s else None)"
    using assms by (simp add: pd_read_excel_def)
  show ?thesis
    using read_excel_data_cases [of w1 self s] read_excel_data_cases [of w2 self s]
    by (auto simp: c)
qed

section \<open>The claims\<close>

text \<open>
  C1. When the path holds a workbook and the call selects a sheet of it (the sheet
  with the given non-empty name, otherwise the first) that has \<open>N\<close> rows, and no row
  of this run fails to build, \<open>convert_all_rows\<close> writes for every row index
  \<open>i < N\<close> the document of that row, as \<open>iterrows\<close> yields it from the filled
  sheet, to the file \<open>{prefix}_{i+1:03d}.pdf\<close> in the output folder. These \<open>N\<close>
  paths are pairwise distinct, and the files present afterwards are those present before
  together with exactly these \<open>N\<close>. The number in the name is the decimal numeral of
  \<open>i + 1\<close> padded with zeros to three digits (exactly three below 1000). Called
  without a prefix, the method behaves as with the prefix \<open>row\<close>.
\<close>

theorem convert_all_rows_one_file_per_row:
  assumes "files w (excel_file_path self) = Some (Workbook wb)"
      and "selected_sheet wb sheet_name = Some df0"
      and "\<forall>i<length (data df0).
             build_error ev (os_path_join (output_folder self) (pdf_filename pfx (int i)))
               (row_document (snd (iterrows ev (fillna df0) ! i)) (int i)) = None"
  shows "(\<forall>i<length (data df0).
            files (snd (convert_all_rows ev self sheet_name (Some pfx) w))
              (os_path_join (output_folder self) (pdf_filename pfx (int i))) =
            Some (PdfDoc (row_document (snd (iterrows ev (fillna df0) ! i)) (int i)))) \<and>
         dom (files (snd (convert_all_rows ev self sheet_name (Some pfx) w))) =
           dom (files w) \<union>
           (\<lambda>i. os_path_join (output_folder self) (pdf_filename pfx (int i))) ` {..<length (data df0)} \<and>
         distinct (map (\<lambda>i. os_path_join (output_folder self) (pdf_filename pfx (int i)))
                     [0..<length (data df0)]) \<and>
         (\<forall>i. pdf_filename pfx (int i) = pfx @ ''_'' @ zfill 3 (str_nat (i + 1)) @ ''.pdf'' \<and>
              (i + 1 < 1000 \<longrightarrow> length (zfill 3 (str_nat (i + 1))) = 3)) \<and>
         convert_all_rows ev self sheet_name None w = convert_all_rows ev self sheet_name (Some ''row'') w"
proof (intro conjI allI impI)
  note r = read_excel_data_selected [OF assms(1,2)]
  have n: "length (data (fillna df0)) = length (data df0)"
    by (simp add: fillna_shape)
  have ok: "\<forall>i<length (data (fillna df0)). build_error ev (out_path self pfx i)
                 (row_document (snd (iterrows ev (fillna df0) ! i)) (int i)) = None"
    using assms(3) by (simp add: out_path_def n)
  {
    fix i
    assume i: "i < length (data df0)"
    then have i': "i < length (data (fillna df0))" by (simp add: n)
    from ok i' have "build_error ev (out_path self pfx i)
        (row_document (snd (iterrows ev (fillna df0) ! i)) (int i)) = None" by simp
    then show "files (snd (convert_all_rows ev self sheet_name (Some pfx) w))
          (os_path_join (output_folder self) (pdf_filename pfx (int i))) =
        Some (PdfDoc (row_document (snd (iterrows ev (fillna df0) ! i)) (int i)))"
      using convert_all_rows_file(1) [OF r i', of ev pfx]
      by (simp add: build_leaves_ok) (simp add: out_path_def)
  }
  show "dom (files (snd (convert_all_rows ev self sheet_name (Some pfx) w))) =
           dom (files w) \<union>
           (\<lambda>i. os_path_join (output_folder self) (pdf_filename pfx (int i))) ` {..<length (data df0)}"
    using convert_all_rows_dom [OF r ok] by (simp add: out_path_def [abs_def] n)
  show "distinct (map (\<lambda>i. os_path_join (output_folder self) (pdf_filename pfx (int i)))
                     [0..<length (data df0)])"
    using out_path_distinct [of self pfx "length (data df0)"] by (simp add: out_path_def [abs_def])
  show "convert_all_rows ev self sheet_name None w = convert_all_rows ev self sheet_name (Some ''row'') w"
    by (rule convert_all_rows_default_prefix)
next
  fix i :: nat
  show "pdf_filename pfx (int i) = pfx @ ''_'' @ zfill 3 (str_nat (i + 1)) @ ''.pdf''"
    by (simp add: pdf_filename_def format_03d_def nat_add_distrib)
next
  fix i :: nat
  assume "i + 1 < 1000"
  from format_03d_width [OF this] show "length (zfill 3 (str_nat (i + 1))) = 3"
    by (simp add: format_03d_def nat_add_distrib)
qed

theorem convert_all_rows_one_file_per_row_witness:
  "files (snd (convert_all_rows ok_env emp_conv None (Some ''emp'') emp_world)) ''out/emp_001.pdf'' =
     Some (PdfDoc \<lparr>title = ''Record 1'', table_data = [(''Name'', ''John''), (''Age'', ''28'')]\<rparr>) \<and>
   files (snd (convert_all_rows ok_env emp_conv None (Some ''emp'') emp_world)) ''out/emp_004.pdf'' =
     Some (PdfDoc \<lparr>title = ''Record 4'', table_data = [(''Name'', ''Sarah''), (''Age'', ''29'')]\<rparr>) \<and>
   dom (files (snd (convert_all_rows ok_env emp_conv None (Some ''emp'') emp_world))) =
     {''out/emp_001.pdf'', ''out/emp_002.pdf'', ''out/emp_003.pdf'', ''out/emp_004.pdf'',
      ''emp.xlsx'', ''out/notes.txt''} \<and>
   files (snd (convert_all_rows ok_env emp_conv (Some ''Other'') (Some ''emp'') emp_world)) ''out/emp_001.pdf'' =
     Some (PdfDoc \<lparr>title = ''Record 1'', table_data = [(''Qty'', ''3.0''), (''Price'', ''2.5'')]\<rparr>) \<and>
   dom (files (snd (convert_all_rows ok_env emp_conv (Some ''Other'') (Some ''emp'') emp_world))) =
     {''out/emp_001.pdf'', ''emp.xlsx'', ''out/notes.txt''}"
proof -
  have ok: "\<forall>i<length (data emp_df).
      build_error ok_env (os_path_join (output_folder emp_conv) (pdf_filename ''emp'' (int i)))
        (row_document (snd (iterrows ok_env (fillna emp_df) ! i)) (int i)) = None"
    by (simp add: ok_env_def)
  note t = convert_all_rows_one_file_per_row [OF emp_workbook(1) emp_selected(1) ok]
  have f0: "files (snd (convert_all_rows ok_env emp_conv None (Some ''emp'') emp_world))
      (os_path_join (output_folder emp_conv) (pdf_filename ''emp'' (int 0))) =
      Some (PdfDoc (row_document (snd (iterrows ok_env (fillna emp_df) ! 0)) (int 0)))"
    using conjunct1 [OF t, rule_format, of 0] by (simp add: emp_lengths)
  have f3: "files (snd (convert_all_rows ok_env emp_conv None (Some ''emp'') emp_world))
      (os_path_join (output_folder emp_conv) (pdf_filename ''emp'' (int 3))) =
      Some (PdfDoc (row_document (snd (iterrows ok_env (fillna emp_df) ! 3)) (int 3)))"
    using conjunct1 [OF t, rule_format, of 3] by (simp add: emp_lengths)
  have d: "dom (files (snd (convert_all_rows ok_env emp_conv None (Some ''emp'') emp_world))) =
      dom (files emp_world) \<union>
      (\<lambda>i. os_path_join (output_folder emp_conv) (pdf_filename ''emp'' (int i))) ` {..<length (data emp_df)}"
    by (rule conjunct1 [OF conjunct2 [OF t]])
  have a: "files (snd (convert_all_rows ok_env emp_conv None (Some ''emp'') emp_world)) ''out/emp_001.pdf'' =
     Some (PdfDoc \<lparr>title = ''Record 1'', table_data = [(''Name'', ''John''), (''Age'', ''28'')]\<rparr>)"
    using f0 by (simp add: emp_names emp_paths emp_iterrows emp_docs)
  have b: "files (snd (convert_all_rows ok_env emp_conv None (Some ''emp'') emp_world)) ''out/emp_004.pdf'' =
     Some (PdfDoc \<lparr>title = ''Record 4'', table_data = [(''Name'', ''Sarah''), (''Age'', ''29'')]\<rparr>)"
    using f3 by (simp add: emp_names emp_paths emp_iterrows emp_docs)
  have c: "dom (files (snd (convert_all_rows ok_env emp_conv None (Some ''emp'') emp_world))) =
     {''out/emp_001.pdf'', ''out/emp_002.pdf'', ''out/emp_003.pdf'', ''out/emp_004.pdf'',
      ''emp.xlsx'', ''out/notes.txt''}"
    unfolding d emp_lengths lessThan_4 emp_dom by (simp add: emp_names emp_paths)
  have ok': "\<forall>i<length (data other_df).
      build_error ok_env (os_path_join (output_folder emp_conv) (pdf_filename ''emp'' (int i)))
        (row_document (snd (iterrows ok_env (fillna other_df) ! i)) (int i)) = None"
    by (simp add: ok_env_def)
  note u = convert_all_rows_one_file_per_row [OF emp_workbook(1) emp_selected(2) ok']
  have g0: "files (snd (convert_all_rows ok_env emp_conv (Some ''Other'') (Some ''emp'') emp_world))
      (os_path_join (output_folder emp_conv) (pdf_filename ''emp'' (int 0))) =
      Some (PdfDoc (row_document (snd (iterrows ok_env (fillna other_df) ! 0)) (int 0)))"
    using conjunct1 [OF u, rule_format, of 0] by (simp add: emp_lengths)
  have e: "files (snd (convert_all_rows ok_env emp_conv (Some ''Other'') (Some ''emp'') emp_world)) ''out/emp_001.pdf'' =
     Some (PdfDoc \<lparr>title = ''Record 1'', table_data = [(''Qty'', ''3.0''), (''Price'', ''2.5'')]\<rparr>)"
    using g0 by (simp add: emp_names emp_paths emp_filled other_iterrows ok_float_3 emp_docs)
  have d': "dom (files (snd (convert_all_rows ok_env emp_conv (Some ''Other'') (Some ''emp'') emp_world))) =
      dom (files emp_world) \<union>
      (\<lambda>i. os_path_join (output_folder emp_conv) (pdf_filename ''emp'' (int i))) ` {..<length (data other_df)}"
    by (rule conjunct1 [OF conjunct2 [OF u]])
  have l1: "{..<1::nat} = {0}" by auto
  have f: "dom (files (snd (convert_all_rows ok_env emp_conv (Some ''Other'') (Some ''emp'') emp_world))) =
     {''out/emp_001.pdf'', ''emp.xlsx'', ''out/notes.txt''}"
    unfolding d' emp_lengths l1 emp_dom by (simp add: emp_names emp_paths)
  from a b c e f show ?thesis by (intro conjI)
qed

text \<open>
  C2. For a row and a zero-based index, \<open>create_pdf_from_row\<close> (when its build does
  not fail) writes a document whose title is \<open>Record\<close> followed by the index plus
  one, and whose table has exactly one row per field of the row, in the row's order:
  the field names are the column labels as \<open>str\<close> gives them, with no
  duplication, omission or reordering, and each value is the field's rendered value.
\<close>

theorem create_pdf_from_row_renders:
  assumes "build_error ev (os_path_join (output_folder self) (pdf_filename (or_default prefix_arg ''row'') row_index))
             (row_document row_data row_index) = None"
  shows "\<exists>doc. files (snd (create_pdf_from_row ev self row_data row_index prefix_arg w))
                 (os_path_join (output_folder self) (pdf_filename (or_default prefix_arg ''row'') row_index))
               = Some (PdfDoc doc) \<and>
             title doc = ''Record '' @ str_int (row_index + 1) \<and>
             map fst (table_data doc) = map (py_str \<circ> fst) row_data \<and>
             map snd (table_data doc) = map (value_str \<circ> snd) row_data \<and>
             length (table_data doc) = length row_data"
proof (intro exI [of _ "row_document row_data row_index"] conjI)
  show "files (snd (create_pdf_from_row ev self row_data row_index prefix_arg w))
          (os_path_join (output_folder self) (pdf_filename (or_default prefix_arg ''row'') row_index))
        = Some (PdfDoc (row_document row_data row_index))"
    by (simp add: create_pdf_from_row_ok [OF assms])
  show "title (row_document row_data row_index) = ''Record '' @ str_int (row_index + 1)"
    by (simp add: row_document_def)
  show "map fst (table_data (row_document row_data row_index)) = map (py_str \<circ> fst) row_data"
    by (simp add: row_document_def case_prod_beta comp_def)
  show "map snd (table_data (row_document row_data row_index)) = map (value_str \<circ> snd) row_data"
    by (simp add: row_document_def case_prod_beta comp_def)
  show "length (table_data (row_document row_data row_index)) = length row_data"
    by (simp add: row_document_def)
qed

theorem create_pdf_from_row_renders_witness:
  "\<exists>doc. files (snd (create_pdf_from_row ok_env emp_conv [(PStr ''Name'', PStr ''John''), (PStr ''Age'', PInt 28)] 0
                  (Some ''emp'') emp_world)) ''out/emp_001.pdf'' = Some (PdfDoc doc) \<and>
         title doc = ''Record 1'' \<and>
         map fst (table_data doc) = [''Name'', ''Age''] \<and>
         map snd (table_data doc) = [''John'', ''28'']"
proof -
  have p: "os_path_join (output_folder emp_conv) (pdf_filename (or_default (Some ''emp'') ''row'') 0) = ''out/emp_001.pdf''"
    by (simp add: or_default_def emp_name_1 emp_conv_def os_path_join_def)
  have b: "build_error ok_env (os_path_join (output_folder emp_conv) (pdf_filename (or_default (Some ''emp'') ''row'') 0))
             (row_document [(PStr ''Name'', PStr ''John''), (PStr ''Age'', PInt 28)] 0) = None"
    by (simp add: ok_env_def)
  have s1: "str_int (0 + 1) = ''1''"
    by (simp add: str_int_def str_nat_digit digit_char_def)
  have s28: "str_int 28 = ''28''"
    by (simp add: str_int_def str_nat.simps digit_char_def)
  have v: "map (value_str \<circ> snd) [(PStr ''Name'', PStr ''John''), (PStr ''Age'', PInt 28)] = [''John'', ''28'']"
    by (simp add: value_str_def s28)
  from create_pdf_from_row_renders [OF b, of emp_world] obtain doc where
    "files (snd (create_pdf_from_row ok_env emp_conv [(PStr ''Name'', PStr ''John''), (PStr ''Age'', PInt 28)] 0
        (Some ''emp'') emp_world)) ''out/emp_001.pdf'' = Some (PdfDoc doc)"
    and "title doc = ''Record 1''"
    and "map fst (table_data doc) = [''Name'', ''Age'']"
    and "map snd (table_data doc) = [''John'', ''28'']"
    unfolding p s1 v by (elim exE conjE) simp
  then show ?thesis
    by (intro exI [of _ doc] conjI)
qed

text \<open>
  C3. When the selected sheet is read as \<open>df0\<close> and its cell in row \<open>i\<close>, column
  \<open>j\<close> is null (\<open>None\<close>, \<open>NaN\<close> or \<open>NaT\<close>), the frame that
  \<open>read_excel_data\<close> returns has the same columns and the same shape, that cell holds
  the empty string, and the table row rendered for it is the column's label with the
  empty string, not \<open>str\<close> of the null value. A null value handed to the renderer
  directly is rendered as the empty string as well.
\<close>

theorem missing_cell_renders_empty:
  assumes "pd_read_excel (files w) (excel_file_path self) (if truthy sheet_name then sheet_name else None) = Inr df0"
      and "i < length (data df0)"
      and "j < length (data df0 ! i)"
      and "j < length (columns df0)"
      and "isna (data df0 ! i ! j)"
  shows "\<exists>df. fst (read_excel_data self sheet_name w) = Return (Some df) \<and>
            columns df = columns df0 \<and>
            length (data df) = length (data df0) \<and>
            length (data df ! i) = length (data df0 ! i) \<and>
            data df ! i ! j = PStr [] \<and>
            table_data (row_document (snd (iterrows ev df ! i)) (int i)) ! j = (py_str (columns df0 ! j), []) \<and>
            value_str (data df0 ! i ! j) = []"
proof (intro exI [of _ "fillna df0"] conjI)
  show "fst (read_excel_data self sheet_name w) = Return (Some (fillna df0))"
    using assms(1) read_excel_data_cases [of w self sheet_name] by auto
  show "columns (fillna df0) = columns df0"
    by (simp add: fillna_shape)
  show "length (data (fillna df0)) = length (data df0)"
    by (simp add: fillna_shape)
  show len: "length (data (fillna df0) ! i) = length (data df0 ! i)"
    using assms(2) by (simp add: fillna_shape)
  show cell: "data (fillna df0) ! i ! j = PStr []"
    using assms by (simp add: fillna_cell)
  have i': "i < length (data (fillna df0))"
    using assms(2) by (simp add: fillna_shape)
  have jj: "j < length (data (fillna df0) ! i)"
    using assms(3) len by simp
  have nn: "\<not> is_numeric (data (fillna df0) ! i ! j)"
    by (simp add: cell)
  have j': "j < length (zip (columns (fillna df0)) (data (fillna df0) ! i))"
    using assms len by (simp add: fillna_shape)
  have "table_data (row_document (snd (iterrows ev (fillna df0) ! i)) (int i)) ! j =
      (py_str (fst (zip (columns (fillna df0)) (data (fillna df0) ! i) ! j)),
       value_str (snd (zip (columns (fillna df0)) (data (fillna df0) ! i) ! j)))"
    using j' by (simp add: iterrows_nth [OF i'] row_values_object [OF i' jj nn] row_document_nth)
  also have "\<dots> = (py_str (columns df0 ! j), value_str (PStr []))"
    using assms len cell by (simp add: fillna_shape)
  also have "\<dots> = (py_str (columns df0 ! j), [])"
    by (simp add: value_str_def)
  finally show "table_data (row_document (snd (iterrows ev (fillna df0) ! i)) (int i)) ! j = (py_str (columns df0 ! j), [])" .
  show "value_str (data df0 ! i ! j) = []"
    using assms(5) by (rule value_str_isna)
qed

theorem missing_cell_renders_empty_witness:
  "\<exists>df. fst (read_excel_data emp_conv None emp_world) = Return (Some df) \<and>
        columns df = [PStr ''Name'', PStr ''Age''] \<and>
        data df ! 1 ! 0 = PStr [] \<and>
        table_data (row_document (snd (iterrows ok_env df ! 1)) (int 1)) ! 0 = (''Name'', [])"
proof -
  have r: "pd_read_excel (files emp_world) (excel_file_path emp_conv) (if truthy None then None else None) = Inr emp_df"
    by (simp add: pd_read_excel_def emp_world_def emp_conv_def)
  have i: "1 < length (data emp_df)"
    by (simp add: emp_df_def)
  have j: "0 < length (data emp_df ! 1)"
    by (simp add: emp_df_def)
  have c: "0 < length (columns emp_df)"
    by (simp add: emp_df_def)
  have n: "isna (data emp_df ! 1 ! 0)"
    by (simp add: emp_df_def)
  from missing_cell_renders_empty [OF r i j c n, of ok_env] obtain df where
    "fst (read_excel_data emp_conv None emp_world) = Return (Some df)"
    and "columns df = columns emp_df"
    and "data df ! 1 ! 0 = PStr []"
    and "table_data (row_document (snd (iterrows ok_env df ! 1)) (int 1)) ! 0 = (py_str (columns emp_df ! 0), [])"
    by (elim exE conjE)
  then show ?thesis
    by (intro exI [of _ df] conjI) (simp_all add: emp_df_def)
qed

text \<open>
  C4, as amended. When the selected sheet is read and the build of row \<open>i\<close> raises
  \<open>e\<close>, the batch still returns normally and runs to its closing line. Its output has
  one line per row after the two header lines: the line of row \<open>i\<close> is
  \<open>Error creating PDF {name}: e\<close> with the file name of that row, which carries the
  row's number. Every row whose build does not fail, before or after row \<open>i\<close>, gets
  its file and its \<open>Created PDF\<close> line. The document of row \<open>i\<close> is not written,
  but its path need not be vacant: it holds what the failed build left there, the file
  that was there before the run (none if there was none) or the bytes written until the
  build raised. The counterexample has a build that finds the disk full and leaves an
  empty file in a folder that had none, and a build that raises before it opens its
  file in a folder that holds the file of an earlier run, which stays.
\<close>

theorem convert_all_rows_row_failure_isolated:
  assumes "files w (excel_file_path self) = Some (Workbook wb)"
      and "selected_sheet wb sheet_name = Some df0"
      and "i < length (data df0)"
      and "build_error ev (os_path_join (output_folder self) (pdf_filename pfx (int i)))
             (row_document (snd (iterrows ev (fillna df0) ! i)) (int i)) = Some e"
  shows "fst (convert_all_rows ev self sheet_name (Some pfx) w) = Return PNone \<and>
         stdout (snd (convert_all_rows ev self sheet_name (Some pfx) w)) ! (length (stdout w) + 2 + i) =
           CreateError (pdf_filename pfx (int i)) e \<and>
         files (snd (convert_all_rows ev self sheet_name (Some pfx) w))
             (os_path_join (output_folder self) (pdf_filename pfx (int i))) =
           (case partial_output ev (os_path_join (output_folder self) (pdf_filename pfx (int i)))
                   (row_document (snd (iterrows ev (fillna df0) ! i)) (int i)) of
              None \<Rightarrow> files w (os_path_join (output_folder self) (pdf_filename pfx (int i)))
            | Some bytes \<Rightarrow> Some (Blob bytes)) \<and>
         (\<forall>j<length (data df0).
            build_error ev (os_path_join (output_folder self) (pdf_filename pfx (int j)))
              (row_document (snd (iterrows ev (fillna df0) ! j)) (int j)) = None \<longrightarrow>
            files (snd (convert_all_rows ev self sheet_name (Some pfx) w))
                (os_path_join (output_folder self) (pdf_filename pfx (int j))) =
              Some (PdfDoc (row_document (snd (iterrows ev (fillna df0) ! j)) (int j))) \<and>
            stdout (snd (convert_all_rows ev self sheet_name (Some pfx) w)) ! (length (stdout w) + 2 + j) =
              Created (pdf_filename pfx (int j))) \<and>
         length (stdout (snd (convert_all_rows ev self sheet_name (Some pfx) w))) =
           length (stdout w) + length (data df0) + 3 \<and>
         (\<exists>n folder. last (stdout (snd (convert_all_rows ev self sheet_name (Some pfx) w))) =
            Complete n folder)"
proof (intro conjI allI impI)
  note r = read_excel_data_selected [OF assms(1,2)]
  have n: "length (data (fillna df0)) = length (data df0)"
    by (simp add: fillna_shape)
  from assms(3) have i: "i < length (data (fillna df0))" by (simp add: n)
  from assms(4) have bad: "build_error ev (out_path self pfx i)
      (row_document (snd (iterrows ev (fillna df0) ! i)) (int i)) = Some e"
    by (simp add: out_path_def)
  show "fst (convert_all_rows ev self sheet_name (Some pfx) w) = Return PNone"
    by (rule convert_all_rows_returns)
  show "stdout (snd (convert_all_rows ev self sheet_name (Some pfx) w)) ! (length (stdout w) + 2 + i) =
           CreateError (pdf_filename pfx (int i)) e"
    using convert_all_rows_stdout_nth [OF r i, of ev pfx] by (simp add: row_event_failed [OF bad])
  show "files (snd (convert_all_rows ev self sheet_name (Some pfx) w))
             (os_path_join (output_folder self) (pdf_filename pfx (int i))) =
           (case partial_output ev (os_path_join (output_folder self) (pdf_filename pfx (int i)))
                   (row_document (snd (iterrows ev (fillna df0) ! i)) (int i)) of
              None \<Rightarrow> files w (os_path_join (output_folder self) (pdf_filename pfx (int i)))
            | Some bytes \<Rightarrow> Some (Blob bytes))"
    using convert_all_rows_file(1) [OF r i, of ev pfx, unfolded out_path_def]
    by (simp only: build_leaves_failed [OF assms(4)])
  show "length (stdout (snd (convert_all_rows ev self sheet_name (Some pfx) w))) =
           length (stdout w) + length (data df0) + 3"
    using convert_all_rows_stdout_ends(2) [OF r, of ev pfx] by (simp add: n)
  show "\<exists>n folder. last (stdout (snd (convert_all_rows ev self sheet_name (Some pfx) w))) =
            Complete n folder"
    using convert_all_rows_stdout_ends(1) [OF r, of ev pfx] by blast
  {
    fix j
    assume "j < length (data df0)"
      and "build_error ev (os_path_join (output_folder self) (pdf_filename pfx (int j)))
              (row_document (snd (iterrows ev (fillna df0) ! j)) (int j)) = None"
    then have j: "j < length (data (fillna df0))"
      and ok: "build_error ev (out_path self pfx j)
              (row_document (snd (iterrows ev (fillna df0) ! j)) (int j)) = None"
      by (simp_all add: n out_path_def)
    show "files (snd (convert_all_rows ev self sheet_name (Some pfx) w))
                (os_path_join (output_folder self) (pdf_filename pfx (int j))) =
              Some (PdfDoc (row_document (snd (iterrows ev (fillna df0) ! j)) (int j)))"
      using convert_all_rows_file(1) [OF r j, of ev pfx]
      by (simp add: build_leaves_ok [OF ok]) (simp add: out_path_def)
    show "stdout (snd (convert_all_rows ev self sheet_name (Some pfx) w)) ! (length (stdout w) + 2 + j) =
              Created (pdf_filename pfx (int j))"
      using convert_all_rows_stdout_nth [OF r j, of ev pfx] by (simp add: row_event_ok [OF ok])
  }
qed

theorem convert_all_rows_row_failure_isolated_witness:
  "stdout (snd (convert_all_rows bad_env emp_conv None (Some ''emp'') emp_world)) ! 3 =
     CreateError ''emp_002.pdf'' (OSError ''disk full'') \<and>
   files (snd (convert_all_rows bad_env emp_conv None (Some ''emp'') emp_world)) ''out/emp_002.pdf'' =
     Some (Blob []) \<and>
   files (snd (convert_all_rows bad_env emp_conv None (Some ''emp'') emp_world)) ''out/emp_003.pdf'' =
     Some (PdfDoc \<lparr>title = ''Record 3'', table_data = [(''Name'', ''Mike''), (''Age'', [])]\<rparr>) \<and>
   stdout (snd (convert_all_rows bad_env emp_conv None (Some ''emp'') emp_world)) ! 4 = Created ''emp_003.pdf'' \<and>
   length (stdout (snd (convert_all_rows bad_env emp_conv None (Some ''emp'') emp_world))) = 7"
proof -
  have i: "1 < length (data emp_df)"
    by (simp add: emp_lengths)
  have bad: "build_error bad_env (os_path_join (output_folder emp_conv) (pdf_filename ''emp'' (int 1)))
      (row_document (snd (iterrows bad_env (fillna emp_df) ! 1)) (int 1)) = Some (OSError ''disk full'')"
    by (simp add: emp_names emp_paths bad_env_fields)
  note t = convert_all_rows_row_failure_isolated [OF emp_workbook(1) emp_selected(1) i bad]
  have s: "stdout emp_world = []"
    by (simp add: emp_world_def)
  have a: "stdout (snd (convert_all_rows bad_env emp_conv None (Some ''emp'') emp_world)) ! 3 =
      CreateError ''emp_002.pdf'' (OSError ''disk full'')"
    using conjunct1 [OF conjunct2 [OF t]] by (simp add: s emp_names eval_nat_numeral)
  have b: "files (snd (convert_all_rows bad_env emp_conv None (Some ''emp'') emp_world)) ''out/emp_002.pdf'' =
      Some (Blob [])"
    using conjunct1 [OF conjunct2 [OF conjunct2 [OF t]]] by (simp add: emp_names emp_paths bad_env_fields)
  have j: "2 < length (data emp_df)"
    by (simp add: emp_lengths)
  have ok: "build_error bad_env (os_path_join (output_folder emp_conv) (pdf_filename ''emp'' (int 2)))
      (row_document (snd (iterrows bad_env (fillna emp_df) ! 2)) (int 2)) = None"
    by (simp add: emp_names emp_paths bad_env_fields)
  note u = conjunct1 [OF conjunct2 [OF conjunct2 [OF conjunct2 [OF t]]], rule_format, OF j ok]
  have c: "files (snd (convert_all_rows bad_env emp_conv None (Some ''emp'') emp_world)) ''out/emp_003.pdf'' =
      Some (PdfDoc \<lparr>title = ''Record 3'', table_data = [(''Name'', ''Mike''), (''Age'', [])]\<rparr>)"
    using conjunct1 [OF u] by (simp add: emp_names emp_paths emp_row_2 emp_docs)
  have d: "stdout (snd (convert_all_rows bad_env emp_conv None (Some ''emp'') emp_world)) ! 4 = Created ''emp_003.pdf''"
    using conjunct2 [OF u] by (simp add: s emp_names eval_nat_numeral)
  have e: "length (stdout (snd (convert_all_rows bad_env emp_conv None (Some ''emp'') emp_world))) = 7"
    using conjunct1 [OF conjunct2 [OF conjunct2 [OF conjunct2 [OF conjunct2 [OF t]]]]]
    by (simp add: s emp_lengths)
  from a b c d e show ?thesis by (intro conjI)
qed

theorem failed_row_not_absent_counterexample:
  "stdout (snd (convert_all_rows bad_env emp_conv None (Some ''emp'') emp_world)) ! 3 =
     CreateError ''emp_002.pdf'' (OSError ''disk full'') \<and>
   files emp_world ''out/emp_002.pdf'' = None \<and>
   files (snd (convert_all_rows bad_env emp_conv None (Some ''emp'') emp_world)) ''out/emp_002.pdf'' =
     Some (Blob []) \<and>
   stdout (snd (convert_all_rows early_env emp_conv None (Some ''emp'') stale_world)) ! 3 =
     CreateError ''emp_002.pdf'' (ValueError ''layout'') \<and>
   files (snd (convert_all_rows early_env emp_conv None (Some ''emp'') stale_world)) ''out/emp_002.pdf'' =
     Some (Blob ''old'')"
proof -
  have i: "1 < length (data (fillna emp_df))"
    by (simp add: emp_filled)
  have s: "stdout emp_world = []" "stdout stale_world = []"
    by (simp_all add: emp_world_def stale_world_def)
  have v: "files emp_world ''out/emp_002.pdf'' = None" "files stale_world ''out/emp_002.pdf'' = Some (Blob ''old'')"
    by (simp_all add: emp_world_def stale_world_def)
  have a: "stdout (snd (convert_all_rows bad_env emp_conv None (Some ''emp'') emp_world)) ! 3 =
     CreateError ''emp_002.pdf'' (OSError ''disk full'')"
    using convert_all_rows_stdout_nth [OF emp_read i, of bad_env "''emp''"]
    by (simp add: s row_event_def emp_out_paths emp_names bad_env_fields eval_nat_numeral)
  have b: "files (snd (convert_all_rows bad_env emp_conv None (Some ''emp'') emp_world)) ''out/emp_002.pdf'' =
     Some (Blob [])"
    using convert_all_rows_file(1) [OF emp_read i, of bad_env "''emp''"]
    by (simp add: emp_out_paths build_leaves_def bad_env_fields)
  have c: "stdout (snd (convert_all_rows early_env emp_conv None (Some ''emp'') stale_world)) ! 3 =
     CreateError ''emp_002.pdf'' (ValueError ''layout'')"
    using convert_all_rows_stdout_nth [OF stale_read i, of early_env "''emp''"]
    by (simp add: s row_event_def emp_out_paths emp_names bad_env_fields eval_nat_numeral)
  have d: "files (snd (convert_all_rows early_env emp_conv None (Some ''emp'') stale_world)) ''out/emp_002.pdf'' =
     Some (Blob ''old'')"
    using convert_all_rows_file(1) [OF stale_read i, of early_env "''emp''"]
    by (simp add: emp_out_paths build_leaves_def bad_env_fields v)
  from a v(1) b c d show ?thesis by (intro conjI)
qed

text \<open>
  C5, as amended. \<open>convert_all_rows\<close> returns \<open>None\<close> on every run, not a count.
  When the selected sheet is read as \<open>N\<close> rows it prints
  \<open>Processing N rows...\<close>, the number of rows attempted, and then one line per row;
  when no row of the run fails to build, the closing line
  \<open>Conversion complete! N PDFs created in ...\<close> carries the same \<open>N\<close>, which is
  then also the number of \<open>Created PDF\<close> lines, that is of documents created. What
  the closing line says in a run with a failed row is left open here. The
  counterexample is the run in which the build of the second of four rows fails: the
  method returns \<open>None\<close>, three documents are created, and the closing line reports 4.
\<close>

theorem convert_all_rows_report:
  "fst (convert_all_rows ev self sheet_name (Some pfx) w) = Return PNone \<and>
   (files w (excel_file_path self) = Some (Workbook wb) \<and> selected_sheet wb sheet_name = Some df0 \<longrightarrow>
      stdout (snd (convert_all_rows ev self sheet_name (Some pfx) w)) ! (length (stdout w) + 1) =
        Processing (length (data df0)) \<and>
      length (stdout (snd (convert_all_rows ev self sheet_name (Some pfx) w))) =
        length (stdout w) + length (data df0) + 3 \<and>
      ((\<forall>i<length (data df0).
          build_error ev (os_path_join (output_folder self) (pdf_filename pfx (int i)))
            (row_document (snd (iterrows ev (fillna df0) ! i)) (int i)) = None) \<longrightarrow>
         last (stdout (snd (convert_all_rows ev self sheet_name (Some pfx) w))) =
           Complete (length (data df0)) (output_folder self) \<and>
         created_count (stdout (snd (convert_all_rows ev self sheet_name (Some pfx) w))) =
           created_count (stdout w) + length (data df0)))"
proof (intro conjI impI)
  show "fst (convert_all_rows ev self sheet_name (Some pfx) w) = Return PNone"
    by (rule convert_all_rows_returns)
next
  assume "files w (excel_file_path self) = Some (Workbook wb) \<and> selected_sheet wb sheet_name = Some df0"
  then have r: "fst (read_excel_data self sheet_name w) = Return (Some (fillna df0))"
    by (simp add: read_excel_data_selected)
  have n: "length (data (fillna df0)) = length (data df0)"
    by (simp add: fillna_shape)
  show "stdout (snd (convert_all_rows ev self sheet_name (Some pfx) w)) ! (length (stdout w) + 1) =
        Processing (length (data df0))"
    using convert_all_rows_stdout_ends(3) [OF r, of ev pfx] by (simp add: n)
  show "length (stdout (snd (convert_all_rows ev self sheet_name (Some pfx) w))) =
        length (stdout w) + length (data df0) + 3"
    using convert_all_rows_stdout_ends(2) [OF r, of ev pfx] by (simp add: n)
  assume "\<forall>i<length (data df0).
          build_error ev (os_path_join (output_folder self) (pdf_filename pfx (int i)))
            (row_document (snd (iterrows ev (fillna df0) ! i)) (int i)) = None"
  then have ok: "\<forall>i<length (data (fillna df0)). build_error ev (out_path self pfx i)
                 (row_document (snd (iterrows ev (fillna df0) ! i)) (int i)) = None"
    by (simp add: out_path_def n)
  show "last (stdout (snd (convert_all_rows ev self sheet_name (Some pfx) w))) =
           Complete (length (data df0)) (output_folder self)"
    using convert_all_rows_stdout_ends(1) [OF r, of ev pfx] by (simp add: n)
  show "created_count (stdout (snd (convert_all_rows ev self sheet_name (Some pfx) w))) =
           created_count (stdout w) + length (data df0)"
    using convert_all_rows_created_count [OF r ok] by (simp add: n)
qed

theorem convert_all_rows_report_witness:
  "fst (convert_all_rows ok_env emp_conv None (Some ''emp'') emp_world) = Return PNone \<and>
   stdout (snd (convert_all_rows ok_env emp_conv None (Some ''emp'') emp_world)) ! 1 = Processing 4 \<and>
   last (stdout (snd (convert_all_rows ok_env emp_conv None (Some ''emp'') emp_world))) = Complete 4 ''out'' \<and>
   created_count (stdout (snd (convert_all_rows ok_env emp_conv None (Some ''emp'') emp_world))) = 4"
proof -
  note t = convert_all_rows_report [of ok_env emp_conv None "''emp''" emp_world
      "[(''Staff'', emp_df), (''Other'', other_df)]" emp_df]
  note u = mp [OF conjunct2 [OF t] conjI [OF emp_workbook(1) emp_selected(1)]]
  have ok: "\<forall>i<length (data emp_df).
      build_error ok_env (os_path_join (output_folder emp_conv) (pdf_filename ''emp'' (int i)))
        (row_document (snd (iterrows ok_env (fillna emp_df) ! i)) (int i)) = None"
    by (simp add: ok_env_def)
  note v = mp [OF conjunct2 [OF conjunct2 [OF u]] ok]
  have s: "stdout emp_world = []"
    by (simp add: emp_world_def)
  have f: "output_folder emp_conv = ''out''"
    by (simp add: emp_conv_def)
  have a: "fst (convert_all_rows ok_env emp_conv None (Some ''emp'') emp_world) = Return PNone"
    by (rule conjunct1 [OF t])
  have b: "stdout (snd (convert_all_rows ok_env emp_conv None (Some ''emp'') emp_world)) ! 1 = Processing 4"
    using conjunct1 [OF u] by (simp add: s emp_lengths)
  have c: "last (stdout (snd (convert_all_rows ok_env emp_conv None (Some ''emp'') emp_world))) = Complete 4 ''out''"
    using conjunct1 [OF v] by (simp add: emp_lengths f)
  have d: "created_count (stdout (snd (convert_all_rows ok_env emp_conv None (Some ''emp'') emp_world))) = 4"
    using conjunct2 [OF v] by (simp add: s emp_lengths created_count_simps)
  from a b c d show ?thesis by (intro conjI)
qed

theorem convert_all_rows_count_counterexample:
  "fst (convert_all_rows bad_env emp_conv None (Some ''emp'') emp_world) = Return PNone \<and>
   fst (convert_all_rows bad_env emp_conv None (Some ''emp'') emp_world) \<noteq> Return (PInt 3) \<and>
   created_count (stdout (snd (convert_all_rows bad_env emp_conv None (Some ''emp'') emp_world))) = 3 \<and>
   last (stdout (snd (convert_all_rows bad_env emp_conv None (Some ''emp'') emp_world))) = Complete 4 ''out''"
proof -
  have a: "fst (convert_all_rows bad_env emp_conv None (Some ''emp'') emp_world) = Return PNone"
    by (rule convert_all_rows_returns)
  have c: "last (stdout (snd (convert_all_rows bad_env emp_conv None (Some ''emp'') emp_world))) = Complete 4 ''out''"
    by (simp add: emp_bad_stdout)
  have d: "created_count (stdout (snd (convert_all_rows bad_env emp_conv None (Some ''emp'') emp_world))) = 3"
    by (simp add: emp_bad_stdout created_count_simps)
  from a c d show ?thesis by simp
qed

text \<open>
  C6, as amended. \<open>list_sheets\<close> never raises. For a path that holds a workbook it
  returns the sheet names in file order and prints nothing. For a path that does not
  exist or does not hold a workbook it returns the empty list and prints the line
  \<open>Error reading Excel file: e\<close>. The counterexample is the call on a path that
  does not exist: it returns \<open>[]\<close> rather than failing.
\<close>

theorem list_sheets_returns:
  "(\<forall>e. fst (list_sheets self w) \<noteq> Raise e) \<and>
   (files w (excel_file_path self) = Some (Workbook wb) \<longrightarrow>
      list_sheets self w = (Return (map fst wb), w)) \<and>
   ((\<forall>wb'. files w (excel_file_path self) \<noteq> Some (Workbook wb')) \<longrightarrow>
      fst (list_sheets self w) = Return [] \<and>
      (\<exists>e. snd (list_sheets self w) = w\<lparr>stdout := stdout w @ [ReadError e]\<rparr>))"
proof (intro conjI impI allI)
  fix e
  show "fst (list_sheets self w) \<noteq> Raise e"
    by (simp add: list_sheets_cases split: option.splits file_content.splits)
next
  assume "files w (excel_file_path self) = Some (Workbook wb)"
  then show "list_sheets self w = (Return (map fst wb), w)"
    by (simp add: list_sheets_cases)
next
  assume "\<forall>wb'. files w (excel_file_path self) \<noteq> Some (Workbook wb')"
  from list_sheets_unreadable [OF this] obtain e where
    l: "list_sheets self w = (Return [], w\<lparr>stdout := stdout w @ [ReadError e]\<rparr>)" ..
  show "fst (list_sheets self w) = Return []"
    by (simp add: l)
  have "snd (list_sheets self w) = w\<lparr>stdout := stdout w @ [ReadError e]\<rparr>"
    by (simp add: l)
  then show "\<exists>e. snd (list_sheets self w) = w\<lparr>stdout := stdout w @ [ReadError e]\<rparr>" ..
qed

theorem list_sheets_returns_witness:
  "list_sheets emp_conv emp_world = (Return [''Staff'', ''Other''], emp_world)"
proof -
  have f: "files emp_world (excel_file_path emp_conv) =
      Some (Workbook [(''Staff'', emp_df), (''Other'', other_df)])"
    by (simp add: emp_conv_def emp_world_def)
  note t = list_sheets_returns [where self = emp_conv and w = emp_world
      and wb = "[(''Staff'', emp_df), (''Other'', other_df)]"]
  have "list_sheets emp_conv emp_world =
      (Return (map fst [(''Staff'', emp_df), (''Other'', other_df)]), emp_world)"
    by (rule mp [OF conjunct1 [OF conjunct2 [OF t]] f])
  then show ?thesis by simp
qed

theorem list_sheets_missing_path_counterexample:
  "files emp_world (excel_file_path lost_conv) = None \<and>
   list_sheets lost_conv emp_world =
     (Return [], emp_world\<lparr>stdout := [ReadError (FileNotFoundError ''lost.xlsx'')]\<rparr>) \<and>
   \<not> (\<exists>e. fst (list_sheets lost_conv emp_world) = Raise e)"
proof -
  have f: "files emp_world (excel_file_path lost_conv) = None"
    by (simp add: lost_conv_def emp_world_def)
  have s: "stdout emp_world = []"
    by (simp add: emp_world_def)
  have l: "list_sheets lost_conv emp_world =
     (Return [], emp_world\<lparr>stdout := [ReadError (FileNotFoundError ''lost.xlsx'')]\<rparr>)"
    by (simp add: list_sheets_cases f s) (simp add: lost_conv_def)
  show ?thesis
    by (simp add: f l)
qed

text \<open>
  C7. If the workbook path does not exist, or the sheet cannot be read, then
  \<open>convert_all_rows\<close> returns normally without raising, writes no file and creates no
  directory, and its only effect is the printed line \<open>Error reading Excel file: e\<close>;
  for a missing path \<open>e\<close> is the \<open>FileNotFoundError\<close> of that path.
\<close>

theorem convert_all_rows_unreadable:
  assumes "files w (excel_file_path self) = None \<or> fst (read_excel_data self sheet_name w) = Return None"
  shows "\<exists>e. convert_all_rows ev self sheet_name prefix_arg w =
           (Return PNone, w\<lparr>stdout := stdout w @ [ReadError e]\<rparr>) \<and>
         (files w (excel_file_path self) = None \<longrightarrow> e = FileNotFoundError (excel_file_path self))"
proof (cases "files w (excel_file_path self) = None")
  case True
  have "convert_all_rows ev self sheet_name prefix_arg w =
      (Return PNone, w\<lparr>stdout := stdout w @ [ReadError (FileNotFoundError (excel_file_path self))]\<rparr>)"
    by (rule convert_all_rows_None [OF read_excel_data_missing [OF True]])
  then show ?thesis
    by (intro exI [of _ "FileNotFoundError (excel_file_path self)"] conjI impI refl)
next
  case False
  with assms have "fst (read_excel_data self sheet_name w) = Return None" by simp
  from read_excel_data_None [OF this] obtain e where
    "read_excel_data self sheet_name w = (Return None, w\<lparr>stdout := stdout w @ [ReadError e]\<rparr>)" ..
  then have "convert_all_rows ev self sheet_name prefix_arg w =
      (Return PNone, w\<lparr>stdout := stdout w @ [ReadError e]\<rparr>)"
    by (rule convert_all_rows_None)
  with False show ?thesis
    by (intro exI [of _ e] conjI impI) simp_all
qed

theorem convert_all_rows_unreadable_witness:
  "files emp_world (excel_file_path lost_conv) = None \<and>
   convert_all_rows ok_env lost_conv None (Some ''emp'') emp_world =
     (Return PNone, emp_world\<lparr>stdout := [ReadError (FileNotFoundError ''lost.xlsx'')]\<rparr>) \<and>
   files (snd (convert_all_rows ok_env lost_conv None (Some ''emp'') emp_world)) = files emp_world \<and>
   dirs (snd (convert_all_rows ok_env lost_conv None (Some ''emp'') emp_world)) = dirs emp_world"
proof -
  have h: "files emp_world (excel_file_path lost_conv) = None"
    by (simp add: emp_world_def lost_conv_def)
  note t = convert_all_rows_unreadable [where w = emp_world and self = lost_conv and ev = ok_env
      and sheet_name = None and prefix_arg = "Some ''emp''", OF disjI1 [OF h]]
  from t obtain e where
    eq: "convert_all_rows ok_env lost_conv None (Some ''emp'') emp_world =
           (Return PNone, emp_world\<lparr>stdout := stdout emp_world @ [ReadError e]\<rparr>)"
    and imp: "files emp_world (excel_file_path lost_conv) = None \<longrightarrow>
           e = FileNotFoundError (excel_file_path lost_conv)"
    by (elim exE conjE)
  from imp h have e: "e = FileNotFoundError ''lost.xlsx''"
    by (simp add: lost_conv_def)
  have s: "stdout emp_world = []"
    by (simp add: emp_world_def)
  show ?thesis
    by (simp add: h eq e s)
qed

text \<open>
  C8, as amended. Two runs of \<open>convert_all_rows\<close> on the same workbook, sheet, prefix
  and output folder, in environments where the same builds fail in the same way and
  with no file yet under any name of the scheme, return the same value, print the same
  lines, write the same documents under the same names and change the same set of
  paths. The files are not identical in their bytes: each PDF carries the time of its
  run as its creation date. The counterexample is the same conversion run at two times.
\<close>

theorem convert_all_rows_repeatable:
  assumes "files w1 (excel_file_path self) = files w2 (excel_file_path self)"
      and "build_error ev1 = build_error ev2"
      and "partial_output ev1 = partial_output ev2"
      and "float_str ev1 = float_str ev2"
      and "\<forall>i::nat. files w1 (os_path_join (output_folder self) (pdf_filename pfx (int i))) = None \<and>
                   files w2 (os_path_join (output_folder self) (pdf_filename pfx (int i))) = None"
  shows "fst (convert_all_rows ev1 self sheet_name (Some pfx) w1) =
           fst (convert_all_rows ev2 self sheet_name (Some pfx) w2) \<and>
         drop (length (stdout w1)) (stdout (snd (convert_all_rows ev1 self sheet_name (Some pfx) w1))) =
           drop (length (stdout w2)) (stdout (snd (convert_all_rows ev2 self sheet_name (Some pfx) w2))) \<and>
         (\<forall>i::nat.
            files (snd (convert_all_rows ev1 self sheet_name (Some pfx) w1))
              (os_path_join (output_folder self) (pdf_filename pfx (int i))) =
            files (snd (convert_all_rows ev2 self sheet_name (Some pfx) w2))
              (os_path_join (output_folder self) (pdf_filename pfx (int i)))) \<and>
         {p. files (snd (convert_all_rows ev1 self sheet_name (Some pfx) w1)) p \<noteq> files w1 p} =
           {p. files (snd (convert_all_rows ev2 self sheet_name (Some pfx) w2)) p \<noteq> files w2 p}"
proof -
  from assms(5) have v1: "\<forall>i. files w1 (out_path self pfx i) = None"
    and v2: "\<forall>i. files w2 (out_path self pfx i) = None"
    by (simp_all add: out_path_def)
  have ret: "fst (convert_all_rows ev1 self sheet_name (Some pfx) w1) =
           fst (convert_all_rows ev2 self sheet_name (Some pfx) w2)"
    by (simp add: convert_all_rows_returns)
  from read_excel_data_two [OF assms(1), of sheet_name]
  have rest: "drop (length (stdout w1)) (stdout (snd (convert_all_rows ev1 self sheet_name (Some pfx) w1))) =
           drop (length (stdout w2)) (stdout (snd (convert_all_rows ev2 self sheet_name (Some pfx) w2))) \<and>
         (\<forall>i::nat.
            files (snd (convert_all_rows ev1 self sheet_name (Some pfx) w1)) (out_path self pfx i) =
            files (snd (convert_all_rows ev2 self sheet_name (Some pfx) w2)) (out_path self pfx i)) \<and>
         {p. files (snd (convert_all_rows ev1 self sheet_name (Some pfx) w1)) p \<noteq> files w1 p} =
           {p. files (snd (convert_all_rows ev2 self sheet_name (Some pfx) w2)) p \<noteq> files w2 p}"
  proof (elim disjE exE conjE)
    fix df
    assume r1: "fst (read_excel_data self sheet_name w1) = Return (Some df)"
      and r2: "fst (read_excel_data self sheet_name w2) = Return (Some df)"
    note it = iterrows_cong [OF assms(4), of df]
    note bl = build_leaves_cong [OF assms(2,3)]
    have a: "drop (length (stdout w1)) (stdout (snd (convert_all_rows ev1 self sheet_name (Some pfx) w1))) =
           drop (length (stdout w2)) (stdout (snd (convert_all_rows ev2 self sheet_name (Some pfx) w2)))"
      by (simp add: convert_all_rows_stdout [OF r1] convert_all_rows_stdout [OF r2] it
          row_event_cong [OF assms(2)])
    have b: "\<forall>i::nat.
            files (snd (convert_all_rows ev1 self sheet_name (Some pfx) w1)) (out_path self pfx i) =
            files (snd (convert_all_rows ev2 self sheet_name (Some pfx) w2)) (out_path self pfx i)"
      by (simp add: convert_all_rows_at_out_path [OF r1 v1] convert_all_rows_at_out_path [OF r2 v2] it bl)
    have c: "{p. files (snd (convert_all_rows ev1 self sheet_name (Some pfx) w1)) p \<noteq> files w1 p} =
           {p. files (snd (convert_all_rows ev2 self sheet_name (Some pfx) w2)) p \<noteq> files w2 p}"
      by (simp add: convert_all_rows_changed [OF r1 v1] convert_all_rows_changed [OF r2 v2] it bl)
    from a b c show ?thesis by (intro conjI)
  next
    fix e
    assume "read_excel_data self sheet_name w1 = (Return None, w1\<lparr>stdout := stdout w1 @ [ReadError e]\<rparr>)"
      and "read_excel_data self sheet_name w2 = (Return None, w2\<lparr>stdout := stdout w2 @ [ReadError e]\<rparr>)"
    then show ?thesis
      using v1 v2 by (simp add: convert_all_rows_None)
  qed
  from ret rest show ?thesis
    by (simp add: out_path_def)
qed

theorem convert_all_rows_repeatable_witness:
  "stdout (snd (convert_all_rows ok_env emp_conv None (Some ''emp'') emp_world)) =
     stdout (snd (convert_all_rows later_env emp_conv None (Some ''emp'') emp_world)) \<and>
   files (snd (convert_all_rows ok_env emp_conv None (Some ''emp'') emp_world)) ''out/emp_001.pdf'' =
     files (snd (convert_all_rows later_env emp_conv None (Some ''emp'') emp_world)) ''out/emp_001.pdf'' \<and>
   {p. files (snd (convert_all_rows ok_env emp_conv None (Some ''emp'') emp_world)) p \<noteq> files emp_world p} =
     {p. files (snd (convert_all_rows later_env emp_conv None (Some ''emp'') emp_world)) p \<noteq> files emp_world p}"
proof -
  have w: "files emp_world (excel_file_path emp_conv) = files emp_world (excel_file_path emp_conv)" ..
  have b: "build_error ok_env = build_error later_env"
    and q: "partial_output ok_env = partial_output later_env"
    and f: "float_str ok_env = float_str later_env"
    by (simp_all add: later_env_def)
  have v: "\<forall>i::nat. files emp_world (os_path_join (output_folder emp_conv) (pdf_filename ''emp'' (int i))) = None \<and>
                   files emp_world (os_path_join (output_folder emp_conv) (pdf_filename ''emp'' (int i))) = None"
    by (simp add: emp_world_def os_path_join_def emp_conv_def pdf_filename_def)
  note t = convert_all_rows_repeatable [OF w b q f v, of None]
  have s: "stdout emp_world = []"
    by (simp add: emp_world_def)
  have a: "stdout (snd (convert_all_rows ok_env emp_conv None (Some ''emp'') emp_world)) =
     stdout (snd (convert_all_rows later_env emp_conv None (Some ''emp'') emp_world))"
    using conjunct1 [OF conjunct2 [OF t]] by (simp add: s)
  have c: "files (snd (convert_all_rows ok_env emp_conv None (Some ''emp'') emp_world)) ''out/emp_001.pdf'' =
     files (snd (convert_all_rows later_env emp_conv None (Some ''emp'') emp_world)) ''out/emp_001.pdf''"
    using conjunct1 [OF conjunct2 [OF conjunct2 [OF t]], rule_format, of 0]
    by (simp add: emp_names emp_paths)
  have d: "{p. files (snd (convert_all_rows ok_env emp_conv None (Some ''emp'') emp_world)) p \<noteq> files emp_world p} =
     {p. files (snd (convert_all_rows later_env emp_conv None (Some ''emp'') emp_world)) p \<noteq> files emp_world p}"
    by (rule conjunct2 [OF conjunct2 [OF conjunct2 [OF t]]])
  from a c d show ?thesis by (intro conjI)
qed

theorem creation_date_differs_counterexample:
  "files emp_world ''out/emp_001.pdf'' = None \<and>
   build_error ok_env = build_error later_env \<and>
   creation_date (snd (convert_all_rows ok_env emp_conv None (Some ''emp'') emp_world)) ''out/emp_001.pdf'' =
     Some 1000 \<and>
   creation_date (snd (convert_all_rows later_env emp_conv None (Some ''emp'') emp_world)) ''out/emp_001.pdf'' =
     Some 2000"
proof -
  have i: "0 < length (data (fillna emp_df))"
    by (simp add: emp_filled)
  have v: "files emp_world ''out/emp_001.pdf'' = None"
    by (simp add: emp_world_def)
  have b: "build_error ok_env = build_error later_env"
    by (simp add: later_env_def)
  have c: "creation_date (snd (convert_all_rows ok_env emp_conv None (Some ''emp'') emp_world)) ''out/emp_001.pdf'' =
     Some 1000"
    using convert_all_rows_file(2) [OF emp_read i, of ok_env "''emp''"]
    by (simp add: emp_out_paths date_leaves_def ok_env_def)
  have d: "creation_date (snd (convert_all_rows later_env emp_conv None (Some ''emp'') emp_world)) ''out/emp_001.pdf'' =
     Some 2000"
    using convert_all_rows_file(2) [OF emp_read i, of later_env "''emp''"]
    by (simp add: emp_out_paths date_leaves_def later_env_def ok_env_def)
  from v b c d show ?thesis by (intro conjI)
qed

text \<open>
  C9. Creating the converter, with its \<open>mkdir\<close> of the output folder, changes no
  file. \<open>convert_all_rows\<close> leaves every path that is not the output folder joined
  with a name \<open>{prefix}_{i+1:03d}.pdf\<close> of its own scheme exactly as it was, whether
  the run succeeds, fails on rows or cannot read the workbook; and it deletes nothing:
  a path that held a file before the run holds one after it.
\<close>

theorem convert_all_rows_leaves_other_files:
  "files (snd (init excel_path folder_arg w)) = files w \<and>
   ((\<forall>i::nat. p \<noteq> os_path_join (output_folder self)
                     (pdf_filename (or_default prefix_arg ''row'') (int i))) \<longrightarrow>
      files (snd (convert_all_rows ev self sheet_name prefix_arg w)) p = files w p) \<and>
   (files w p \<noteq> None \<longrightarrow>
      files (snd (convert_all_rows ev self sheet_name prefix_arg w)) p \<noteq> None)"
proof (intro conjI impI)
  show "files (snd (init excel_path folder_arg w)) = files w"
    by (rule init_files)
next
  assume a: "\<forall>i::nat. p \<noteq> os_path_join (output_folder self)
                     (pdf_filename (or_default prefix_arg ''row'') (int i))"
  then have "\<forall>i. p \<noteq> out_path self (or_default prefix_arg ''row'') i"
    by (simp add: out_path_def)
  from convert_all_rows_frame [OF this] show
    "files (snd (convert_all_rows ev self sheet_name prefix_arg w)) p = files w p"
    by (simp add: convert_all_rows_prefix_arg [of ev self sheet_name prefix_arg])
next
  assume a: "files w p \<noteq> None"
  from convert_all_rows_keeps [OF a] show
    "files (snd (convert_all_rows ev self sheet_name prefix_arg w)) p \<noteq> None"
    by (simp add: convert_all_rows_prefix_arg [of ev self sheet_name prefix_arg])
qed

theorem convert_all_rows_leaves_other_files_witness:
  "files (snd (convert_all_rows bad_env emp_conv None (Some ''emp'') stale_world)) ''out/notes.txt'' =
     Some (Blob ''keep'') \<and>
   files (snd (convert_all_rows bad_env emp_conv None (Some ''emp'') stale_world)) ''emp.xlsx'' =
     files stale_world ''emp.xlsx'' \<and>
   files (snd (convert_all_rows bad_env emp_conv None (Some ''emp'') stale_world)) ''out/emp_002.pdf'' \<noteq> None"
proof -
  have n: "\<forall>i::nat. ''out/notes.txt'' \<noteq> os_path_join (output_folder emp_conv)
                     (pdf_filename (or_default (Some ''emp'') ''row'') (int i))"
    by (simp add: os_path_join_def emp_conv_def pdf_filename_def or_default_def)
  have x: "\<forall>i::nat. ''emp.xlsx'' \<noteq> os_path_join (output_folder emp_conv)
                     (pdf_filename (or_default (Some ''emp'') ''row'') (int i))"
    by (simp add: os_path_join_def emp_conv_def pdf_filename_def or_default_def)
  have o: "files stale_world ''out/emp_002.pdf'' \<noteq> None"
    by (simp add: stale_world_def)
  have a: "files (snd (convert_all_rows bad_env emp_conv None (Some ''emp'') stale_world)) ''out/notes.txt'' =
      files stale_world ''out/notes.txt''"
    by (rule mp [OF conjunct1 [OF conjunct2 [OF convert_all_rows_leaves_other_files]] n])
  have b: "files (snd (convert_all_rows bad_env emp_conv None (Some ''emp'') stale_world)) ''emp.xlsx'' =
      files stale_world ''emp.xlsx''"
    by (rule mp [OF conjunct1 [OF conjunct2 [OF convert_all_rows_leaves_other_files]] x])
  have c: "files (snd (convert_all_rows bad_env emp_conv None (Some ''emp'') stale_world)) ''out/emp_002.pdf'' \<noteq> None"
    by (rule mp [OF conjunct2 [OF conjunct2 [OF convert_all_rows_leaves_other_files]] o])
  have k: "files stale_world ''out/notes.txt'' = Some (Blob ''keep'')"
    by (simp add: stale_world_def emp_world_def)
  from a b c k show ?thesis by simp
qed

text \<open>
  C10. An empty-string sheet name, and any falsy sheet name, behaves in
  \<open>read_excel_data\<close> and \<open>convert_all_rows\<close> exactly as the call without a
  sheet name: the first sheet of the workbook is read.
\<close>

theorem empty_sheet_name_is_default:
  "read_excel_data self (Some []) w = read_excel_data self None w \<and>
   convert_all_rows ev self (Some []) prefix_arg w = convert_all_rows ev self None prefix_arg w \<and>
   (\<not> truthy sheet_name \<longrightarrow>
      read_excel_data self sheet_name w = read_excel_data self None w \<and>
      convert_all_rows ev self sheet_name prefix_arg w = convert_all_rows ev self None prefix_arg w) \<and>
   (files w (excel_file_path self) = Some (Workbook ((name, df) # sheets)) \<longrightarrow>
      fst (read_excel_data self (Some []) w) = Return (Some (fillna df)))"
  by (simp add: read_excel_data_def convert_all_rows_def truthy_def pd_read_excel_def Let_def)

theorem empty_sheet_name_is_default_witness:
  "fst (read_excel_data emp_conv (Some []) emp_world) = Return (Some (fillna emp_df)) \<and>
   pd_read_excel (files emp_world) (excel_file_path emp_conv) (Some []) = Inl (ValueError [])"
proof -
  have f: "files emp_world (excel_file_path emp_conv) =
      Some (Workbook ((''Staff'', emp_df) # [(''Other'', other_df)]))"
    by (simp add: emp_conv_def emp_world_def)
  note t = empty_sheet_name_is_default [where self = emp_conv and w = emp_world and name = "''Staff''"
      and df = emp_df and sheets = "[(''Other'', other_df)]"]
  have "fst (read_excel_data emp_conv (Some []) emp_world) = Return (Some (fillna emp_df))"
    by (rule mp [OF conjunct2 [OF conjunct2 [OF conjunct2 [OF t]]] f])
  moreover have "pd_read_excel (files emp_world) (excel_file_path emp_conv) (Some []) = Inl (ValueError [])"
    by (simp add: emp_conv_def emp_world_def pd_read_excel_def)
  ultimately show ?thesis by simp
qed

end
